theory Spec2Isabelle
  imports Main
begin

section \<open>Python strings\<close>

text \<open>
  A Python \<open>str\<close> is modelled as a \<open>string\<close>; each \<open>char\<close> stands for one code
  point of the range 0..255, so \<open>length\<close> is Python's \<open>len\<close>.
\<close>

text \<open>\<open>str.lower()\<close> on that range: A-Z and the Latin-1 capitals move up by 32.\<close>

definition lower_char :: "char \<Rightarrow> char" where
  "lower_char c =
     (let n = of_char c :: nat in
      if (65 \<le> n \<and> n \<le> 90) \<or> (192 \<le> n \<and> n \<le> 222 \<and> n \<noteq> 215)
      then char_of (n + 32) else c)"

definition lower :: "string \<Rightarrow> string" where
  "lower s = map lower_char s"

text \<open>\<open>s.startswith(p)\<close>, \<open>s.endswith(p)\<close> and the substring test \<open>p in s\<close>.\<close>

fun startswith :: "string \<Rightarrow> string \<Rightarrow> bool" where
  "startswith s [] = True"
| "startswith [] (p # ps) = False"
| "startswith (c # cs) (p # ps) = (c = p \<and> startswith cs ps)"

definition endswith :: "string \<Rightarrow> string \<Rightarrow> bool" where
  "endswith s p = startswith (rev s) (rev p)"

fun str_in :: "string \<Rightarrow> string \<Rightarrow> bool" where
  "str_in p [] = (p = [])"
| "str_in p (c # cs) = (startswith (c # cs) p \<or> str_in p cs)"

text \<open>\<open>any(k in s for k in ks)\<close>.\<close>

definition any_in :: "string list \<Rightarrow> string \<Rightarrow> bool" where
  "any_in ks s = list_ex (\<lambda>k. str_in k s) ks"

text \<open>\<open>s.split(sep)\<close> for a one-character separator: never the empty list.\<close>

fun split_acc :: "char \<Rightarrow> string \<Rightarrow> string \<Rightarrow> string list" where
  "split_acc sep acc [] = [rev acc]"
| "split_acc sep acc (c # cs) =
     (if c = sep then rev acc # split_acc sep [] cs else split_acc sep (c # acc) cs)"

definition split :: "string \<Rightarrow> char \<Rightarrow> string list" where
  "split s sep = split_acc sep [] s"

text \<open>\<open>s.count(c)\<close> for a one-character argument.\<close>

definition count :: "string \<Rightarrow> char \<Rightarrow> nat" where
  "count s c = length (filter (\<lambda>x. x = c) s)"

section \<open>pathlib and os.path on POSIX\<close>

text \<open>
  \<open>Path(p).parts\<close>: the root (\<open>/\<close>, or \<open>//\<close> for exactly two leading slashes) when
  the path is absolute, then the segments that are neither empty nor \<open>.\<close>.
\<close>

definition path_root :: "string \<Rightarrow> string" where
  "path_root p =
     (if \<not> startswith p ''/'' then ''''
      else if startswith p ''//'' \<and> \<not> startswith p ''///'' then ''//''
      else ''/'')"

definition path_tail :: "string \<Rightarrow> string list" where
  "path_tail p = filter (\<lambda>x. x \<noteq> '''' \<and> x \<noteq> ''.'') (split p CHR ''/'')"

definition parts :: "string \<Rightarrow> string list" where
  "parts p = (if path_root p = '''' then path_tail p else path_root p # path_tail p)"

text \<open>\<open>Path(p).name\<close>: the last segment, empty when there is none.\<close>

definition path_name :: "string \<Rightarrow> string" where
  "path_name p = (case rev (path_tail p) of [] \<Rightarrow> '''' | n # _ \<Rightarrow> n)"

text \<open>
  \<open>Path(p).suffix\<close>: with \<open>i = name.rfind('.')\<close>, the text from \<open>i\<close> on when
  \<open>0 < i < len(name) - 1\<close>, and empty otherwise.
\<close>

definition path_suffix :: "string \<Rightarrow> string" where
  "path_suffix p =
     (let name = path_name p;
          ext = rev (takeWhile (\<lambda>c. c \<noteq> CHR ''.'') (rev name))
      in if CHR ''.'' \<in> set name \<and> length ext + 1 < length name \<and> ext \<noteq> ''''
         then CHR ''.'' # ext else '''')"

text \<open>\<open>os.path.join(a, b)\<close>.\<close>

definition path_join :: "string \<Rightarrow> string \<Rightarrow> string" where
  "path_join a b =
     (if startswith b ''/'' then b
      else if a = '''' \<or> endswith a ''/'' then a @ b
      else a @ ''/'' @ b)"

section \<open>parser\_utils.py: the path classifier\<close>

definition supported_extensions :: "(string \<times> string) list" where
  "supported_extensions =
     [(''.py'', ''python''), (''.js'', ''javascript''), (''.ts'', ''typescript''),
      (''.jsx'', ''javascript''), (''.tsx'', ''typescript''), (''.java'', ''java''),
      (''.cpp'', ''cpp''), (''.c'', ''c''), (''.h'', ''c''), (''.hpp'', ''cpp''),
      (''.cs'', ''csharp''), (''.php'', ''php''), (''.rb'', ''ruby''), (''.go'', ''go''),
      (''.rs'', ''rust''), (''.swift'', ''swift''), (''.kt'', ''kotlin''),
      (''.scala'', ''scala''), (''.r'', ''r''), (''.sql'', ''sql''), (''.sh'', ''bash''),
      (''.yaml'', ''yaml''), (''.yml'', ''yaml''), (''.json'', ''json''),
      (''.xml'', ''xml''), (''.html'', ''html''), (''.css'', ''css''),
      (''.md'', ''markdown''), (''.txt'', ''text''), (''.rst'', ''restructuredtext'')]"

definition ignore_dirs :: "string list" where
  "ignore_dirs =
     [''__pycache__'', ''.git'', ''.svn'', ''.hg'', ''node_modules'',
      ''venv'', ''env'', ''.env'', ''build'', ''dist'', ''.tox'',
      ''coverage'', ''.coverage'', ''.pytest_cache'', ''.mypy_cache'',
      ''target'', ''bin'', ''obj'', ''.gradle'', ''.idea'', ''.vscode'',
      ''vendor'', ''deps'', ''_build'', ''.next'', ''.nuxt'']"

definition ignore_files :: "string list" where
  "ignore_files =
     [''.gitignore'', ''.dockerignore'', ''.env'', ''.env.local'',
      ''package-lock.json'', ''yarn.lock'', ''poetry.lock'',
      ''Pipfile.lock'', ''composer.lock'']"

definition binary_extensions :: "string list" where
  "binary_extensions =
     [''.exe'', ''.dll'', ''.so'', ''.dylib'', ''.bin'', ''.dat'',
      ''.pdf'', ''.doc'', ''.docx'', ''.xls'', ''.xlsx'', ''.ppt'', ''.pptx'',
      ''.jpg'', ''.jpeg'', ''.png'', ''.gif'', ''.bmp'', ''.svg'', ''.ico'',
      ''.mp3'', ''.mp4'', ''.avi'', ''.mov'', ''.wmv'', ''.flv'',
      ''.zip'', ''.rar'', ''.tar'', ''.gz'', ''.7z'',
      ''.jar'', ''.war'', ''.ear'', ''.pyc'', ''.pyo'', ''.pyd'']"

definition should_ignore_path :: "string \<Rightarrow> bool" where
  "should_ignore_path path =
     (if list_ex (\<lambda>part. part \<in> set ignore_dirs) (parts path) then True
      else if path_name path \<in> set ignore_files then True
      else if lower (path_suffix path) \<in> set binary_extensions then True
      else False)"

definition get_file_language :: "string \<Rightarrow> string option" where
  "get_file_language file_path = map_of supported_extensions (lower (path_suffix file_path))"

section \<open>parser\_utils.py: records\<close>

text \<open>
  The dictionaries built by the parser, as records. A key that a strategy does not set
  is an optional field.
\<close>

record function_info =
  fn_name :: string
  fn_line :: nat
  fn_args :: "string list"
  fn_docstring :: "string option"
  fn_decorators :: "string list"
  fn_type :: "string option"

record class_info =
  cl_name :: string
  cl_line :: nat
  cl_bases :: "string list"
  cl_docstring :: "string option"
  cl_methods :: "string list"

record variable_info =
  var_name :: string
  var_line :: nat
  var_type :: string

record file_info =
  fi_path :: string
  fi_full_path :: string
  fi_language :: "string option"
  fi_size :: nat
  fi_lines :: nat
  fi_content_preview :: string
  fi_functions :: "function_info list"
  fi_classes :: "class_info list"
  fi_imports :: "string list"
  fi_variables :: "variable_info list"
  fi_comments :: "string list"
  fi_content :: "string option"
  fi_code_blocks :: "nat option"

text \<open>
  What a language strategy adds to a fresh \<open>file_info\<close>: the strategies only append to
  the five lists (all empty before the call) and, for text files, set \<open>code_blocks\<close>.
\<close>

record extraction =
  ex_functions :: "function_info list"
  ex_classes :: "class_info list"
  ex_imports :: "string list"
  ex_variables :: "variable_info list"
  ex_comments :: "string list"
  ex_code_blocks :: "nat option"

definition apply_extraction :: "extraction \<Rightarrow> file_info \<Rightarrow> file_info" where
  "apply_extraction ex fi =
     fi\<lparr>fi_functions := fi_functions fi @ ex_functions ex,
        fi_classes := fi_classes fi @ ex_classes ex,
        fi_imports := fi_imports fi @ ex_imports ex,
        fi_variables := fi_variables fi @ ex_variables ex,
        fi_comments := fi_comments fi @ ex_comments ex,
        fi_code_blocks := (case ex_code_blocks ex of None \<Rightarrow> fi_code_blocks fi | Some n \<Rightarrow> Some n)\<rparr>"

text \<open>
  The environment of the parser: \<open>os.path.relpath\<close>, the syntax-tree and regular
  expression strategies (functions of the content and, for text files, the language),
  and the second walk that builds the directory structure (\<open>None\<close> when it raises).
\<close>

record 'st parser_env =
  relpath :: "string \<Rightarrow> string \<Rightarrow> string"
  analyze_python_file :: "string \<Rightarrow> extraction"
  analyze_js_file :: "string \<Rightarrow> extraction"
  analyze_java_file :: "string \<Rightarrow> extraction"
  analyze_text_file :: "string \<Rightarrow> string option \<Rightarrow> extraction"
  analyze_generic_file :: "string \<Rightarrow> extraction"
  generate_directory_structure :: "string \<Rightarrow> 'st option"

text \<open>
  A file on disk: \<open>st_size\<close> from \<open>os.stat\<close>, and the text \<open>open(...).read()\<close>
  returns, \<open>None\<close> when the file decodes under neither encoding or cannot be read.
\<close>

record file_data =
  st_size :: nat
  text_of :: "string option"

section \<open>parser\_utils.py: analyze\_file\<close>

definition prose_languages :: "string list" where
  "prose_languages = [''markdown'', ''text'', ''restructuredtext'']"

definition retains_content :: "string \<Rightarrow> string option \<Rightarrow> string \<Rightarrow> bool" where
  "retains_content file_path language content =
     (let file_name_lower = lower (path_name file_path) in
      str_in ''readme'' file_name_lower \<or>
      startswith file_name_lower ''license'' \<or>
      startswith file_name_lower ''changelog'' \<or>
      startswith file_name_lower ''contributing'' \<or>
      language \<in> Some ` set prose_languages \<or>
      length content < 5000)"

definition content_preview :: "string \<Rightarrow> string" where
  "content_preview content = take 500 content @ (if length content > 500 then ''...'' else [])"

definition run_strategy :: "'st parser_env \<Rightarrow> string option \<Rightarrow> string \<Rightarrow> extraction" where
  "run_strategy env language content =
     (if language = Some ''python'' then analyze_python_file env content
      else if language \<in> {Some ''javascript'', Some ''typescript''} then analyze_js_file env content
      else if language = Some ''java'' then analyze_java_file env content
      else if language \<in> Some ` set prose_languages then analyze_text_file env content language
      else analyze_generic_file env content)"

definition analyze_file ::
  "'st parser_env \<Rightarrow> string \<Rightarrow> file_data \<Rightarrow> string \<Rightarrow> file_info option" where
  "analyze_file env file_path fd repo_root =
     (let rel_path = relpath env file_path repo_root;
          file_size = st_size fd
      in if file_size > 1024 * 1024 then None
         else
           let language = get_file_language file_path in
           case text_of fd of
             None \<Rightarrow> None
           | Some content \<Rightarrow>
               let lines = split content CHR 0x0A;
                   file_info = \<lparr>fi_path = rel_path, fi_full_path = file_path,
                      fi_language = language, fi_size = file_size,
                      fi_lines = length lines,
                      fi_content_preview = content_preview content,
                      fi_functions = [], fi_classes = [], fi_imports = [],
                      fi_variables = [], fi_comments = [],
                      fi_content = None, fi_code_blocks = None\<rparr>;
                   file_info = (if retains_content file_path language content
                                then file_info\<lparr>fi_content := Some content\<rparr> else file_info)
               in Some (apply_extraction (run_strategy env language content) file_info))"

section \<open>parser\_utils.py: analyze\_repository\<close>

text \<open>
  The tree under the repository root as \<open>os.walk\<close> lists it: each directory has its
  sub-directories and its files, by name, in listing order.
\<close>

datatype dir = Dir (subdirs: "(string \<times> dir) list") (dir_files: "(string \<times> file_data) list")

text \<open>
  The first loop of \<open>analyze_repository\<close>: \<open>os.walk\<close> is top-down, ignored
  directories are removed from \<open>dirs\<close> before the descent, and every file that is not
  ignored is appended to \<open>all_files\<close>. Each path comes with what \<open>os.stat\<close> and
  \<open>open\<close> later return for it.
\<close>

definition kept_files :: "string \<Rightarrow> (string \<times> file_data) list \<Rightarrow> (string \<times> file_data) list" where
  "kept_files root fs =
     map (\<lambda>(file, fd). (path_join root file, fd))
       (filter (\<lambda>(file, fd). \<not> should_ignore_path (path_join root file)) fs)"

fun walk :: "string \<Rightarrow> dir \<Rightarrow> (string \<times> file_data) list"
  and walk_dirs :: "string \<Rightarrow> (string \<times> dir) list \<Rightarrow> (string \<times> file_data) list" where
  "walk root (Dir ds fs) = kept_files root fs @ walk_dirs root ds"
| "walk_dirs root [] = []"
| "walk_dirs root ((d, sub) # ds) =
     (if should_ignore_path (path_join root d) then [] else walk (path_join root d) sub)
     @ walk_dirs root ds"

record lang_stats =
  ls_files :: nat
  ls_lines :: nat

record summary_totals =
  total_lines :: nat
  total_functions :: nat
  total_classes :: nat
  total_imports :: nat

text \<open>
  The analysis dictionary. Dictionaries keep insertion order, so \<open>languages\<close> is an
  association list with unique keys; \<open>structure\<close> is \<open>None\<close> for the empty dictionary
  it starts as.
\<close>

record 'st analysis =
  repository_path :: string
  total_files :: nat
  analyzed_files :: nat
  languages :: "(string \<times> lang_stats) list"
  files :: "file_info list"
  "structure" :: "'st option"
  summary :: summary_totals

text \<open>\<open>d[k] = v\<close>: an existing key keeps its position, a new key goes last.\<close>

fun dict_set :: "'k \<Rightarrow> 'v \<Rightarrow> ('k \<times> 'v) list \<Rightarrow> ('k \<times> 'v) list" where
  "dict_set k v [] = [(k, v)]"
| "dict_set k v ((k', v') # d) = (if k' = k then (k', v) # d else (k', v') # dict_set k v d)"

text \<open>
  The language statistics of one file: the entry is created with zero counts when the
  language is new, then both counts are raised.
\<close>

definition update_languages ::
  "string \<Rightarrow> nat \<Rightarrow> (string \<times> lang_stats) list \<Rightarrow> (string \<times> lang_stats) list" where
  "update_languages lang n langs =
     (let cur = (case map_of langs lang of
                   None \<Rightarrow> \<lparr>ls_files = 0, ls_lines = 0\<rparr> | Some s \<Rightarrow> s)
      in dict_set lang \<lparr>ls_files = ls_files cur + 1, ls_lines = ls_lines cur + n\<rparr> langs)"

text \<open>\<open>if lang:\<close> holds for a language that is neither \<open>None\<close> nor the empty string.\<close>

definition truthy :: "string option \<Rightarrow> bool" where
  "truthy lang = (case lang of None \<Rightarrow> False | Some l \<Rightarrow> l \<noteq> [])"

text \<open>The body of the second loop, for one file of \<open>all_files\<close>.\<close>

definition analyze_step ::
  "'st parser_env \<Rightarrow> string \<Rightarrow> 'st analysis \<Rightarrow> string \<times> file_data \<Rightarrow> 'st analysis" where
  "analyze_step env repo_path a entry =
     (case analyze_file env (fst entry) (snd entry) repo_path of
        None \<Rightarrow> a
      | Some file_analysis \<Rightarrow>
          let lang = fi_language file_analysis;
              s = summary a
          in a\<lparr>files := files a @ [file_analysis],
               analyzed_files := analyzed_files a + 1,
               languages := (case lang of
                               None \<Rightarrow> languages a
                             | Some l \<Rightarrow> if l = [] then languages a
                                 else update_languages l (fi_lines file_analysis) (languages a)),
               summary := \<lparr>total_lines = total_lines s + fi_lines file_analysis,
                  total_functions = total_functions s + length (fi_functions file_analysis),
                  total_classes = total_classes s + length (fi_classes file_analysis),
                  total_imports = total_imports s + length (fi_imports file_analysis)\<rparr>\<rparr>)"

definition initial_analysis :: "string \<Rightarrow> 'st analysis" where
  "initial_analysis repo_path =
     \<lparr>repository_path = repo_path, total_files = 0, analyzed_files = 0, languages = [],
      files = [], structure = None,
      summary = \<lparr>total_lines = 0, total_functions = 0, total_classes = 0, total_imports = 0\<rparr>\<rparr>"

text \<open>
  \<open>analyze_repository\<close>; \<open>None\<close> is the empty dictionary of the outer \<open>except\<close>. The
  progress callback does not change the result and is left out.
\<close>

definition analyze_repository :: "'st parser_env \<Rightarrow> string \<Rightarrow> dir \<Rightarrow> 'st analysis option" where
  "analyze_repository env repo_path tree =
     (let all_files = walk repo_path tree;
          analysis = (initial_analysis repo_path)\<lparr>total_files := length all_files\<rparr>;
          analysis = foldl (analyze_step env repo_path) analysis all_files
      in case generate_directory_structure env repo_path of
           None \<Rightarrow> None
         | Some s \<Rightarrow> Some (analysis\<lparr>structure := Some s\<rparr>))"

text \<open>An environment for examples: no strategy finds anything.\<close>

definition no_extraction :: extraction where
  "no_extraction = \<lparr>ex_functions = [], ex_classes = [], ex_imports = [], ex_variables = [],
     ex_comments = [], ex_code_blocks = None\<rparr>"

definition example_env :: "unit parser_env" where
  "example_env = \<lparr>relpath = (\<lambda>p start. drop (length start + 1) p),
     analyze_python_file = (\<lambda>c. no_extraction),
     analyze_js_file = (\<lambda>c. no_extraction),
     analyze_java_file = (\<lambda>c. no_extraction),
     analyze_text_file = (\<lambda>c l. no_extraction\<lparr>ex_code_blocks := Some 0\<rparr>),
     analyze_generic_file = (\<lambda>c. no_extraction),
     generate_directory_structure = (\<lambda>p. Some ())\<rparr>"

text \<open>
  The retention policy as the specification words it: all four file-name keywords are
  substring tests.
\<close>

definition spec_retains_content :: "string \<Rightarrow> string option \<Rightarrow> string \<Rightarrow> bool" where
  "spec_retains_content file_path language content =
     (let file_name_lower = lower (path_name file_path) in
      str_in ''readme'' file_name_lower \<or>
      str_in ''license'' file_name_lower \<or>
      str_in ''changelog'' file_name_lower \<or>
      str_in ''contributing'' file_name_lower \<or>
      language \<in> Some ` set prose_languages \<or>
      length content < 5000)"

text \<open>
  A small repository for examples: two files that are analyzed (one of them without a
  language), one file over the size limit, and an ignored directory.
\<close>

definition example_tree :: dir where
  "example_tree =
     Dir [(''node_modules'', Dir [] [(''x.js'', \<lparr>st_size = 1, text_of = Some ''x''\<rparr>)])]
       [(''main.py'', \<lparr>st_size = 3, text_of = Some [CHR ''a'', CHR 0x0A, CHR ''b'']\<rparr>),
        (''Makefile'', \<lparr>st_size = 4, text_of = Some ''all:''\<rparr>),
        (''big.py'', \<lparr>st_size = 2097152, text_of = Some ''x''\<rparr>)]"

definition example_main_info :: file_info where
  "example_main_info =
     \<lparr>fi_path = ''main.py'', fi_full_path = ''repo/main.py'', fi_language = Some ''python'',
      fi_size = 3, fi_lines = 2, fi_content_preview = [CHR ''a'', CHR 0x0A, CHR ''b''],
      fi_functions = [], fi_classes = [], fi_imports = [], fi_variables = [],
      fi_comments = [], fi_content = Some [CHR ''a'', CHR 0x0A, CHR ''b''], fi_code_blocks = None\<rparr>"

definition example_makefile_info :: file_info where
  "example_makefile_info =
     \<lparr>fi_path = ''Makefile'', fi_full_path = ''repo/Makefile'', fi_language = None,
      fi_size = 4, fi_lines = 1, fi_content_preview = ''all:'',
      fi_functions = [], fi_classes = [], fi_imports = [], fi_variables = [],
      fi_comments = [], fi_content = Some ''all:'', fi_code_blocks = None\<rparr>"

definition example_analysis :: "unit analysis" where
  "example_analysis =
     \<lparr>repository_path = ''repo'', total_files = 3, analyzed_files = 2,
      languages = [(''python'', \<lparr>ls_files = 1, ls_lines = 2\<rparr>)],
      files = [example_main_info, example_makefile_info], structure = Some (),
      summary = \<lparr>total_lines = 3, total_functions = 0, total_classes = 0, total_imports = 0\<rparr>\<rparr>"

text \<open>The sums over the per-language entries, and what the second loop maintains.\<close>

definition lines_sum :: "(string \<times> lang_stats) list \<Rightarrow> nat" where
  "lines_sum langs = sum_list (map (\<lambda>e. ls_lines (snd e)) langs)"

definition files_sum :: "(string \<times> lang_stats) list \<Rightarrow> nat" where
  "files_sum langs = sum_list (map (\<lambda>e. ls_files (snd e)) langs)"

definition stats_inv :: "'st analysis \<Rightarrow> bool" where
  "stats_inv a \<longleftrightarrow>
     lines_sum (languages a) =
       sum_list (map fi_lines (filter (\<lambda>fi. truthy (fi_language fi)) (files a))) \<and>
     files_sum (languages a) = length (filter (\<lambda>fi. truthy (fi_language fi)) (files a)) \<and>
     total_lines (summary a) = sum_list (map fi_lines (files a)) \<and>
     analyzed_files a = length (files a)"

section \<open>summarizer.py: get\_important\_files\<close>

definition calculate_importance_score :: "file_info \<Rightarrow> int" where
  "calculate_importance_score file_info =
     (let score = 0;
          path = lower (fi_path file_info);
          language = fi_language file_info;
          lines = fi_lines file_info;
          functions_count = length (fi_functions file_info);
          classes_count = length (fi_classes file_info);
          score = (if any_in [''main'', ''index'', ''app'', ''server'', ''api'', ''__init__''] path
                   then score + 50 else score);
          score = (if any_in [''readme'', ''documentation'', ''doc''] path
                   then score + 40 else score);
          score = (if any_in [''config'', ''settings'', ''setup''] path
                   then score + 30 else score);
          score = (if list_ex (endswith path)
                        [''requirements.txt'', ''package.json'', ''pom.xml'', ''cargo.toml'']
                   then score + 35 else score);
          score = (if language \<in> Some ` set [''python'', ''javascript'', ''typescript'', ''java'', ''cpp'']
                   then score + 20
                   else if language \<in> Some ` set [''markdown'', ''yaml'', ''json'']
                   then score + 10 else score);
          score = (if lines > 100 then score + int (min (lines div 50) 20) else score);
          score = (if functions_count > 0 then score + int (min (functions_count * 3) 30)
                   else score);
          score = (if classes_count > 0 then score + int (min (classes_count * 5) 25)
                   else score);
          score = (if lines > 2000 then score - 20 else score);
          score = (if count path CHR ''/'' \<le> 1 \<or> str_in ''/src/'' path
                   then score + 15 else score)
      in score)"

text \<open>
  \<open>list.sort(key=..., reverse=True)\<close> is a stable sort by descending key: files with
  equal scores keep their order.
\<close>

definition get_important_files :: "file_info list \<Rightarrow> file_info list" where
  "get_important_files fs =
     (let scored_files = map (\<lambda>file_info. (file_info, calculate_importance_score file_info)) fs;
          scored_files = sort_key (\<lambda>x. - snd x) scored_files
      in map fst scored_files)"

definition example_scored_main :: file_info where
  "example_scored_main =
     \<lparr>fi_path = ''main.py'', fi_full_path = ''repo/main.py'', fi_language = Some ''python'',
      fi_size = 600, fi_lines = 30, fi_content_preview = '''',
      fi_functions =
        [\<lparr>fn_name = ''run'', fn_line = 1, fn_args = [], fn_docstring = None,
          fn_decorators = [], fn_type = None\<rparr>,
         \<lparr>fn_name = ''stop'', fn_line = 9, fn_args = [], fn_docstring = None,
          fn_decorators = [], fn_type = None\<rparr>],
      fi_classes = [], fi_imports = [], fi_variables = [], fi_comments = [],
      fi_content = None, fi_code_blocks = None\<rparr>"

definition example_scored_helpers :: file_info where
  "example_scored_helpers =
     \<lparr>fi_path = ''utils_helpers.py'', fi_full_path = ''repo/utils_helpers.py'',
      fi_language = Some ''python'', fi_size = 9000, fi_lines = 500, fi_content_preview = '''',
      fi_functions = [], fi_classes = [], fi_imports = [], fi_variables = [],
      fi_comments = [], fi_content = None, fi_code_blocks = None\<rparr>"

section \<open>qa\_agent.py: state\<close>

text \<open>The entries of the summary that the agent reads.\<close>

record file_summary =
  fs_file :: string
  fs_language :: "string option"
  fs_lines :: nat
  fs_summary :: string
  fs_functions_count :: nat
  fs_classes_count :: nat

record component =
  comp_name :: string
  comp_files_count :: nat
  comp_total_lines :: nat
  comp_functions_count :: nat
  comp_classes_count :: nat
  comp_languages :: "string list"
  comp_key_files :: "string list"

record repo_summary =
  rs_overview :: string
  rs_file_summaries :: "file_summary list"
  rs_structure_analysis :: string
  rs_key_components :: "component list"
  rs_language_breakdown :: "(string \<times> lang_stats) list"
  rs_metadata :: "(string \<times> string) list"

text \<open>
  \<open>context_cache\<close>; \<open>cc_analysis\<close> is \<open>None\<close> for the empty dictionary (no repository
  loaded, or the empty result of a failed analysis).
\<close>

record 'st context_cache =
  cc_analysis :: "'st analysis option"
  cc_repository_overview :: string
  cc_file_summaries :: "file_summary list"
  cc_structure_analysis :: string
  cc_key_components :: "component list"
  cc_language_breakdown :: "(string \<times> lang_stats) list"
  cc_metadata :: "(string \<times> string) list"

record func_entry =
  fe_file :: string
  fe_function :: function_info
  fe_file_info :: file_info

record class_entry =
  ce_file :: string
  ce_class :: class_info
  ce_file_info :: file_info

text \<open>The four dictionaries of \<open>search_index\<close>, in insertion order.\<close>

record search_index =
  si_files :: "(string \<times> file_info) list"
  si_functions :: "(string \<times> func_entry list) list"
  si_classes :: "(string \<times> class_entry list) list"
  si_components :: "(string \<times> component) list"

record question_context =
  qc_type :: string
  qc_files :: "file_info list"
  qc_functions :: "func_entry list"
  qc_classes :: "class_entry list"
  qc_components :: "component list"
  qc_metadata :: "(string \<times> string) list"

record history_entry =
  he_question :: string
  he_answer :: string
  he_context_used :: question_context

record 'st qa_agent =
  context_cache :: "'st context_cache"
  conversation_history :: "history_entry list"
  search_index :: search_index

definition empty_cache :: "'st context_cache" where
  "empty_cache = \<lparr>cc_analysis = None, cc_repository_overview = '''', cc_file_summaries = [],
     cc_structure_analysis = '''', cc_key_components = [], cc_language_breakdown = [],
     cc_metadata = []\<rparr>"

definition empty_index :: search_index where
  "empty_index = \<lparr>si_files = [], si_functions = [], si_classes = [], si_components = []\<rparr>"

text \<open>\<open>QAAgent.__init__\<close>.\<close>

definition init_agent :: "'st qa_agent" where
  "init_agent = \<lparr>context_cache = empty_cache, conversation_history = [],
     search_index = empty_index\<rparr>"

section \<open>qa\_agent.py: \_build\_search\_index\<close>

text \<open>\<open>if k not in d: d[k] = []\<close> followed by \<open>d[k].append(x)\<close>.\<close>

definition dict_append :: "'k \<Rightarrow> 'v \<Rightarrow> ('k \<times> 'v list) list \<Rightarrow> ('k \<times> 'v list) list" where
  "dict_append k x d = dict_set k ((case map_of d k of None \<Rightarrow> [] | Some l \<Rightarrow> l) @ [x]) d"

definition index_function ::
  "file_info \<Rightarrow> (string \<times> func_entry list) list \<Rightarrow> function_info
     \<Rightarrow> (string \<times> func_entry list) list" where
  "index_function file_info fns func =
     (let func_name = lower (fn_name func)
      in if func_name \<noteq> []
         then dict_append func_name
                \<lparr>fe_file = fi_path file_info, fe_function = func, fe_file_info = file_info\<rparr> fns
         else fns)"

definition index_class ::
  "file_info \<Rightarrow> (string \<times> class_entry list) list \<Rightarrow> class_info
     \<Rightarrow> (string \<times> class_entry list) list" where
  "index_class file_info clss cls =
     (let cls_name = lower (cl_name cls)
      in if cls_name \<noteq> []
         then dict_append cls_name
                \<lparr>ce_file = fi_path file_info, ce_class = cls, ce_file_info = file_info\<rparr> clss
         else clss)"

text \<open>The body of the loop over the files: the three dictionaries are filled independently.\<close>

definition index_file :: "search_index \<Rightarrow> file_info \<Rightarrow> search_index" where
  "index_file idx file_info =
     idx\<lparr>si_files := dict_set (lower (fi_path file_info)) file_info (si_files idx),
         si_functions := foldl (index_function file_info) (si_functions idx) (fi_functions file_info),
         si_classes := foldl (index_class file_info) (si_classes idx) (fi_classes file_info)\<rparr>"

definition index_component :: "search_index \<Rightarrow> component \<Rightarrow> search_index" where
  "index_component idx component =
     idx\<lparr>si_components :=
           dict_set (lower (comp_name component)) component (si_components idx)\<rparr>"

definition cache_files :: "'st context_cache \<Rightarrow> file_info list" where
  "cache_files cache = (case cc_analysis cache of None \<Rightarrow> [] | Some a \<Rightarrow> files a)"

definition build_search_index :: "'st context_cache \<Rightarrow> search_index" where
  "build_search_index cache =
     (let idx = foldl index_file empty_index (cache_files cache)
      in foldl index_component idx (cc_key_components cache))"

definition load_repository_context ::
  "'st qa_agent \<Rightarrow> 'st analysis option \<Rightarrow> repo_summary \<Rightarrow> 'st qa_agent" where
  "load_repository_context agent a s =
     (let cache = \<lparr>cc_analysis = a, cc_repository_overview = rs_overview s,
            cc_file_summaries = rs_file_summaries s,
            cc_structure_analysis = rs_structure_analysis s,
            cc_key_components = rs_key_components s,
            cc_language_breakdown = rs_language_breakdown s,
            cc_metadata = rs_metadata s\<rparr>
      in agent\<lparr>context_cache := cache, search_index := build_search_index cache\<rparr>)"

section \<open>qa\_agent.py: \_extract\_relevant\_context\<close>

definition question_type :: "string \<Rightarrow> string" where
  "question_type question_lower =
     (if any_in [''function'', ''method'', ''def '', ''function named''] question_lower
      then ''function''
      else if any_in [''class'', ''object'', ''inheritance''] question_lower then ''class''
      else if any_in [''file'', ''module'', ''script''] question_lower then ''file''
      else if any_in [''structure'', ''architecture'', ''organization'', ''folder'', ''directory'']
                question_lower then ''structure''
      else if any_in [''language'', ''technology'', ''framework''] question_lower
      then ''technology''
      else ''general'')"

text \<open>
  The blocks of \<open>_extract_relevant_context\<close> after the classification, in the order
  of the source; each takes the context built so far and returns it updated.
\<close>

text \<open>Files of the index one of whose path segments, longer than 3, occurs in the question.\<close>

definition file_mentions ::
  "search_index \<Rightarrow> string \<Rightarrow> question_context \<Rightarrow> question_context" where
  "file_mentions idx question_lower context =
     context\<lparr>qc_files := qc_files context @
        map snd (filter (\<lambda>(file_path, file_info).
           list_ex (\<lambda>part. str_in part question_lower)
             (filter (\<lambda>part. length part > 3) (split file_path CHR ''/'')))
          (si_files idx))\<rparr>"

text \<open>Special handling for README questions.\<close>

definition readme_handling ::
  "search_index \<Rightarrow> string \<Rightarrow> question_context \<Rightarrow> question_context" where
  "readme_handling idx question_lower context =
     (if str_in ''readme'' question_lower
      then context\<lparr>qc_type := ''readme'', qc_files := qc_files context @
             map snd (filter (\<lambda>(file_path, file_info). str_in ''readme'' (lower file_path))
               (si_files idx))\<rparr>
      else context)"

text \<open>Special handling for documentation questions.\<close>

definition documentation_handling ::
  "search_index \<Rightarrow> string \<Rightarrow> question_context \<Rightarrow> question_context" where
  "documentation_handling idx question_lower context =
     (if any_in [''documentation'', ''docs'', ''doc''] question_lower
      then context\<lparr>qc_type := ''documentation'', qc_files := qc_files context @
             map snd (filter (\<lambda>(file_path, file_info).
                any_in [''readme'', ''doc'', ''guide'', ''manual''] (lower file_path))
               (si_files idx))\<rparr>
      else context)"

text \<open>Functions, classes and components whose indexed name, longer than 3, occurs in the question.\<close>

definition name_mentions ::
  "search_index \<Rightarrow> string \<Rightarrow> question_context \<Rightarrow> question_context" where
  "name_mentions idx question_lower context =
     (let context = context\<lparr>qc_functions := qc_functions context @
             concat (map snd (filter (\<lambda>(func_name, func_list).
                str_in func_name question_lower \<and> length func_name > 3) (si_functions idx)))\<rparr>;
          context = context\<lparr>qc_classes := qc_classes context @
             concat (map snd (filter (\<lambda>(cls_name, cls_list).
                str_in cls_name question_lower \<and> length cls_name > 3) (si_classes idx)))\<rparr>
      in context\<lparr>qc_components := qc_components context @
             map snd (filter (\<lambda>(name, component).
                str_in name question_lower \<and> length name > 3) (si_components idx))\<rparr>)"

text \<open>When nothing specific was found, general context by question type.\<close>

definition general_context :: "search_index \<Rightarrow> question_context \<Rightarrow> question_context" where
  "general_context idx context =
     (if qc_files context = [] \<and> qc_functions context = [] \<and> qc_classes context = [] \<and>
         qc_components context = []
      then (if qc_type context = ''function''
            then context\<lparr>qc_functions :=
                   take 20 (concat (take 10 (map snd (si_functions idx))))\<rparr>
            else if qc_type context = ''file''
            then context\<lparr>qc_files := take 15 (map snd (si_files idx))\<rparr>
            else if qc_type context = ''class''
            then context\<lparr>qc_classes :=
                   take 15 (concat (take 10 (map snd (si_classes idx))))\<rparr>
            else context)
      else context)"

definition extract_relevant_context :: "'st qa_agent \<Rightarrow> string \<Rightarrow> question_context" where
  "extract_relevant_context agent question =
     (let question_lower = lower question;
          idx = search_index agent;
          context = \<lparr>qc_type = question_type question_lower, qc_files = [], qc_functions = [],
             qc_classes = [], qc_components = [],
             qc_metadata = cc_metadata (context_cache agent)\<rparr>;
          context = file_mentions idx question_lower context;
          context = readme_handling idx question_lower context;
          context = documentation_handling idx question_lower context;
          context = name_mentions idx question_lower context
      in general_context idx context)"

section \<open>qa\_agent.py: \_prepare\_context\_for\_llm\<close>

text \<open>\<open>str(n)\<close> for a natural number, and \<open>sep.join(xs)\<close>.\<close>

fun str_nat :: "nat \<Rightarrow> string" where
  "str_nat n =
     (if n < 10 then [char_of (48 + n)]
      else str_nat (n div 10) @ [char_of (48 + n mod 10)])"

declare str_nat.simps [simp del]

fun join :: "string \<Rightarrow> string list \<Rightarrow> string" where
  "join sep [] = []"
| "join sep [x] = x"
| "join sep (x # y # ys) = x @ sep @ join sep (y # ys)"

text \<open>An optional string inside an f-string: \<open>None\<close> is printed as \<open>None\<close>.\<close>

definition str_opt :: "string option \<Rightarrow> string" where
  "str_opt s = (case s of None \<Rightarrow> ''None'' | Some x \<Rightarrow> x)"

definition newline :: string where
  "newline = [CHR 0x0A]"

text \<open>
  What the agent takes from outside: the text generator (\<open>Inl\<close> when the call raises,
  \<open>Inr None\<close> when it returns nothing) and \<open>json.dumps(..., indent=2)\<close>.
\<close>

datatype exn = Exception string

record qa_env =
  call_llm :: "string \<Rightarrow> string \<Rightarrow> exn + string option"
  json_dumps :: "(string \<times> lang_stats) list \<Rightarrow> string"

definition overview_part :: "'st context_cache \<Rightarrow> string list" where
  "overview_part cache =
     (let overview = cc_repository_overview cache
      in if overview \<noteq> [] then [''Repository Overview:'' @ newline @ overview @ newline]
         else [])"

definition file_structure_line :: "file_info \<Rightarrow> string" where
  "file_structure_line file_info =
     ''- '' @ fi_path file_info @ '' ('' @ str_opt (fi_language file_info) @ '', '' @
     str_nat (fi_size file_info) @ '' bytes, '' @ str_nat (fi_lines file_info) @ '' lines)''"

text \<open>
  The block for the intents \<open>structure\<close> and \<open>file\<close>. Without a loaded analysis the
  list of files is empty and nothing is added.
\<close>

definition file_structure_part :: "'st context_cache \<Rightarrow> question_context \<Rightarrow> string list" where
  "file_structure_part cache context =
     (if qc_type context \<in> set [''structure'', ''file'']
      then (case cc_analysis cache of
              None \<Rightarrow> []
            | Some analysis \<Rightarrow>
                let all_files = files analysis
                in if all_files \<noteq> []
                   then [''Complete File Structure:''] @
                        map file_structure_line all_files @
                        [newline @ ''Total files: '' @ str_nat (total_files analysis) @
                           '', Analyzed files: '' @ str_nat (analyzed_files analysis),
                         '''']
                   else [])
      else [])"

definition structure_analysis_part :: "'st context_cache \<Rightarrow> question_context \<Rightarrow> string list" where
  "structure_analysis_part cache context =
     (if qc_type context \<in> set [''structure'', ''general'']
      then (let s = cc_structure_analysis cache
            in if s \<noteq> [] then [''Project Structure Analysis:'' @ newline @ s @ newline]
               else [])
      else [])"

definition language_part ::
  "qa_env \<Rightarrow> 'st context_cache \<Rightarrow> question_context \<Rightarrow> string list" where
  "language_part env cache context =
     (if qc_type context \<in> set [''technology'', ''general'']
      then (let languages = cc_language_breakdown cache
            in if languages \<noteq> []
               then [''Language Breakdown:'' @ newline @ json_dumps env languages @ newline]
               else [])
      else [])"

definition file_content_lines :: "string \<Rightarrow> file_info \<Rightarrow> string list" where
  "file_content_lines question file_info =
     (let file_path = fi_path file_info;
          language = fi_language file_info;
          lines = fi_lines file_info;
          content = (case fi_content file_info of
                       Some c \<Rightarrow> c | None \<Rightarrow> fi_content_preview file_info)
      in if content \<noteq> [] \<and>
            (str_in ''readme'' (lower file_path) \<or>
             str_in ''license'' (lower file_path) \<or>
             str_in ''changelog'' (lower file_path) \<or>
             str_in ''contributing'' (lower file_path) \<or>
             language \<in> Some ` set prose_languages \<or>
             lines < 100 \<or>
             list_ex (\<lambda>part. str_in (lower part) (lower question)) (split file_path CHR ''/''))
         then (let full_content = content
               in if length full_content > 3000
                  then [''  Content (first 3000 chars):'' @ newline @ ''```'' @ newline @
                        take 3000 full_content @ ''...'' @ newline @ ''```'']
                  else [''  Full Content:'' @ newline @ ''```'' @ newline @
                        full_content @ newline @ ''```''])
         else [])"

definition relevant_file_lines :: "string \<Rightarrow> file_info \<Rightarrow> string list" where
  "relevant_file_lines question file_info =
     (''- '' @ fi_path file_info @ '' ('' @ str_opt (fi_language file_info) @ '', '' @
        str_nat (fi_lines file_info) @ '' lines, '' @
        str_nat (length (fi_functions file_info)) @ '' functions, '' @
        str_nat (length (fi_classes file_info)) @ '' classes)'')
     # file_content_lines question file_info"

definition files_part :: "question_context \<Rightarrow> string \<Rightarrow> string list" where
  "files_part context question =
     (if qc_files context \<noteq> []
      then [''Relevant Files:''] @
           concat (map (relevant_file_lines question) (take 10 (qc_files context))) @ ['''']
      else [])"

definition description_lines :: "string option \<Rightarrow> string list" where
  "description_lines docstring =
     (case docstring of
        None \<Rightarrow> []
      | Some d \<Rightarrow> if d \<noteq> [] then [''  Description: '' @ take 200 d @ ''...''] else [])"

definition function_lines :: "func_entry \<Rightarrow> string list" where
  "function_lines func_info =
     (let func = fe_function func_info
      in (''- '' @ fn_name func @ ''('' @ join '', '' (fn_args func) @ '') in '' @
          fe_file func_info @ '':'' @ str_nat (fn_line func))
         # description_lines (fn_docstring func))"

definition functions_part :: "question_context \<Rightarrow> string list" where
  "functions_part context =
     (if qc_functions context \<noteq> []
      then [''Relevant Functions:''] @
           concat (map function_lines (take 10 (qc_functions context))) @ ['''']
      else [])"

definition class_lines :: "class_entry \<Rightarrow> string list" where
  "class_lines cls_info =
     (let cls = ce_class cls_info
      in (''- '' @ cl_name cls @ '' in '' @ ce_file cls_info @ '':'' @ str_nat (cl_line cls))
         # (if cl_methods cls \<noteq> []
            then [''  Methods: '' @ join '', '' (take 5 (cl_methods cls))] else [])
         @ description_lines (cl_docstring cls))"

definition classes_part :: "question_context \<Rightarrow> string list" where
  "classes_part context =
     (if qc_classes context \<noteq> []
      then [''Relevant Classes:''] @
           concat (map class_lines (take 10 (qc_classes context))) @ ['''']
      else [])"

definition component_line :: "component \<Rightarrow> string" where
  "component_line component =
     ''- '' @ comp_name component @ '': '' @ str_nat (comp_files_count component) @
     '' files, '' @ str_nat (comp_total_lines component) @ '' lines, '' @
     str_nat (comp_functions_count component) @ '' functions, '' @
     str_nat (comp_classes_count component) @ '' classes''"

definition components_part :: "question_context \<Rightarrow> string list" where
  "components_part context =
     (if qc_components context \<noteq> []
      then [''Relevant Components:''] @
           map component_line (take 5 (qc_components context)) @ ['''']
      else [])"

definition summaries_part :: "'st context_cache \<Rightarrow> question_context \<Rightarrow> string list" where
  "summaries_part cache context =
     (if qc_type context \<in> set [''general'', ''file''] \<and> qc_files context = []
      then (let file_summaries = take 5 (cc_file_summaries cache)
            in if file_summaries \<noteq> []
               then [''Key File Summaries:''] @
                    map (\<lambda>file_summary. ''- '' @ fs_file file_summary @ '': '' @
                           take 300 (fs_summary file_summary) @ ''...'') file_summaries @
                    ['''']
               else [])
      else [])"

definition last_n :: "nat \<Rightarrow> 'a list \<Rightarrow> 'a list" where
  "last_n n xs = drop (length xs - n) xs"

definition history_part :: "history_entry list \<Rightarrow> string list" where
  "history_part history =
     (if history \<noteq> []
      then [''Recent Conversation:''] @
           concat (map (\<lambda>conv. [''Q: '' @ take 100 (he_question conv) @ ''...'',
                                  ''A: '' @ take 200 (he_answer conv) @ ''...''])
                     (last_n 3 history)) @ ['''']
      else [])"

definition context_parts ::
  "qa_env \<Rightarrow> 'st qa_agent \<Rightarrow> question_context \<Rightarrow> string \<Rightarrow> string list" where
  "context_parts env agent context question =
     (let cache = context_cache agent
      in overview_part cache @
         file_structure_part cache context @
         structure_analysis_part cache context @
         language_part env cache context @
         files_part context question @
         functions_part context @
         classes_part context @
         components_part context @
         summaries_part cache context @
         history_part (conversation_history agent))"

definition prepare_context_for_llm ::
  "qa_env \<Rightarrow> 'st qa_agent \<Rightarrow> question_context \<Rightarrow> string \<Rightarrow> string" where
  "prepare_context_for_llm env agent context question =
     join newline (context_parts env agent context question)"

section \<open>qa\_agent.py: \_generate\_answer and answer\_question\<close>

definition dquote :: string where
  "dquote = [CHR 0x22]"

definition squote :: string where
  "squote = [CHR 0x27]"

definition system_prompt :: string where
  "system_prompt = join newline
     [''You are an expert software engineer and code analyst. Your task is to answer questions about a repository based on the provided analysis and context.'',
      '''',
      ''Guidelines for answering:'',
      ''1. ONLY answer based on the provided context - do not hallucinate or make assumptions'',
      ''2. If file content is provided in the context, reference it directly and quote relevant sections'',
      ''3. Be specific and accurate - reference exact file names, line numbers, and content when available'',
      ''4. If you cannot answer based on the provided context, clearly state what information is missing'',
      ''5. For README questions, quote the actual content from the README file if provided'',
      ''6. For file structure questions, list ONLY the files shown in the '' @ dquote @
        ''Complete File Structure'' @ dquote @ '' section'',
      ''7. Use markdown formatting for clarity and code blocks for file content'',
      ''8. When discussing code, provide relevant details like file locations, function signatures, etc.'',
      ''9. If the question asks about file content that isn'' @ squote @
        ''t provided, explain that the content analysis is limited'',
      ''10. Never mention files that are not explicitly listed in the provided context'',
      '''',
      ''Remember: Your credibility depends on accuracy. Only state what you can verify from the provided repository analysis. Do not invent or assume the existence of files not shown in the context.'']"

definition user_prompt :: "string \<Rightarrow> string \<Rightarrow> string" where
  "user_prompt question context_text =
     ''Repository Context:'' @ newline @ context_text @ newline @ newline @
     ''Question: '' @ question @ newline @ newline @
     ''Please provide an accurate answer based strictly on the repository analysis above. If file content is shown in the context, reference it directly. For file structure questions, only list the files explicitly shown in the '' @
     squote @ ''Complete File Structure'' @ squote @ '' section.''"

definition no_answer :: string where
  "no_answer = ''I'' @ squote @ ''m unable to answer your question based on the available repository analysis. Could you please rephrase your question or be more specific?''"

text \<open>\<open>response or "..."\<close>: an empty response counts as none.\<close>

definition generate_answer :: "qa_env \<Rightarrow> string \<Rightarrow> string \<Rightarrow> exn + string" where
  "generate_answer env question context_text =
     (case call_llm env system_prompt (user_prompt question context_text) of
        Inl e \<Rightarrow> Inl e
      | Inr response \<Rightarrow>
          Inr (case response of
                 None \<Rightarrow> no_answer
               | Some r \<Rightarrow> if r \<noteq> [] then r else no_answer))"

definition apology :: "exn \<Rightarrow> string" where
  "apology e =
     (case e of Exception msg \<Rightarrow>
        ''I'' @ squote @ ''m sorry, I encountered an error while processing your question: '' @ msg)"

text \<open>
  \<open>answer_question\<close> returns the answer, the context used (\<open>None\<close> for the empty
  dictionary of the \<open>except\<close> branch) and the agent afterwards. Context extraction and
  rendering are total on these records, so the only step inside the \<open>try\<close> that can
  raise is the call of the text generator.
\<close>

definition answer_question ::
  "qa_env \<Rightarrow> 'st qa_agent \<Rightarrow> string \<Rightarrow> (string \<times> question_context option) \<times> 'st qa_agent" where
  "answer_question env agent question =
     (let relevant_context = extract_relevant_context agent question;
          context_text = prepare_context_for_llm env agent relevant_context question
      in case generate_answer env question context_text of
           Inl e \<Rightarrow> ((apology e, None), agent)
         | Inr answer \<Rightarrow>
             let history = conversation_history agent @
                   [\<lparr>he_question = question, he_answer = answer,
                     he_context_used = relevant_context\<rparr>];
                 history = (if length history > 10 then last_n 10 history else history)
             in ((answer, Some relevant_context), agent\<lparr>conversation_history := history\<rparr>))"

text \<open>
  A session: the questions are asked one after the other. The result holds the agent at
  the end and the log of the completed exchanges, in order.
\<close>

fun ask_all ::
  "qa_env \<Rightarrow> 'st qa_agent \<Rightarrow> string list \<Rightarrow> 'st qa_agent \<times> history_entry list" where
  "ask_all env agent [] = (agent, [])"
| "ask_all env agent (q # qs) =
     (case answer_question env agent q of
        ((answer, None), agent') \<Rightarrow> ask_all env agent' qs
      | ((answer, Some c), agent') \<Rightarrow>
          (let (agent'', log) = ask_all env agent' qs
           in (agent'', \<lparr>he_question = q, he_answer = answer, he_context_used = c\<rparr> # log)))"

text \<open>Text generators for examples: one echoes a fixed answer, one always raises.\<close>

definition echo_env :: qa_env where
  "echo_env = \<lparr>call_llm = (\<lambda>sys usr. Inr (Some ''ok'')), json_dumps = (\<lambda>d. ''{}'')\<rparr>"

definition failing_env :: qa_env where
  "failing_env = \<lparr>call_llm = (\<lambda>sys usr. Inl (Exception ''timeout'')),
     json_dumps = (\<lambda>d. ''{}'')\<rparr>"

text \<open>
  The entries the function index is expected to hold: one for every function of every
  file whose lowercased name is not empty, in the order of the files.
\<close>

definition func_entry_of :: "file_info \<Rightarrow> function_info \<Rightarrow> func_entry" where
  "func_entry_of file_info func =
     \<lparr>fe_file = fi_path file_info, fe_function = func, fe_file_info = file_info\<rparr>"

definition func_entries :: "file_info \<Rightarrow> func_entry list" where
  "func_entries file_info =
     map (func_entry_of file_info)
       (filter (\<lambda>func. lower (fn_name func) \<noteq> []) (fi_functions file_info))"

definition entries_under :: "string \<Rightarrow> func_entry list \<Rightarrow> func_entry list" where
  "entries_under k es = filter (\<lambda>e. lower (fn_name (fe_function e)) = k) es"

definition fn_inv :: "(string \<times> func_entry list) list \<Rightarrow> func_entry list \<Rightarrow> bool" where
  "fn_inv fns es \<longleftrightarrow>
     (\<forall>k. map_of fns k = (if entries_under k es = [] then None else Some (entries_under k es)))"

text \<open>A loaded agent for examples: a README with an empty heading, and \<open>main.py\<close>.\<close>

definition example_readme_info :: file_info where
  "example_readme_info =
     \<lparr>fi_path = ''README.md'', fi_full_path = ''repo/README.md'',
      fi_language = Some ''markdown'', fi_size = 9, fi_lines = 3,
      fi_content_preview = [CHR ''#'', CHR '' '', CHR ''D'', CHR ''e'', CHR ''m'', CHR ''o'',
         CHR 0x0A, CHR ''#'', CHR 0x0A],
      fi_functions =
        [\<lparr>fn_name = ''Demo'', fn_line = 1, fn_args = [], fn_docstring = None,
          fn_decorators = [], fn_type = Some ''header_h1''\<rparr>,
         \<lparr>fn_name = '''', fn_line = 2, fn_args = [], fn_docstring = None,
          fn_decorators = [], fn_type = Some ''header_h1''\<rparr>],
      fi_classes = [], fi_imports = [], fi_variables = [], fi_comments = [],
      fi_content = Some [CHR ''#'', CHR '' '', CHR ''D'', CHR ''e'', CHR ''m'', CHR ''o'',
         CHR 0x0A, CHR ''#'', CHR 0x0A],
      fi_code_blocks = Some 0\<rparr>"

definition example_loaded_analysis :: "unit analysis" where
  "example_loaded_analysis =
     \<lparr>repository_path = ''repo'', total_files = 2, analyzed_files = 2,
      languages = [(''markdown'', \<lparr>ls_files = 1, ls_lines = 3\<rparr>),
                   (''python'', \<lparr>ls_files = 1, ls_lines = 30\<rparr>)],
      files = [example_readme_info, example_scored_main], structure = Some (),
      summary = \<lparr>total_lines = 33, total_functions = 4, total_classes = 0,
                 total_imports = 0\<rparr>\<rparr>"

definition example_summary :: repo_summary where
  "example_summary =
     \<lparr>rs_overview = ''A demo.'', rs_file_summaries = [], rs_structure_analysis = ''Flat.'',
      rs_key_components = [], rs_language_breakdown = languages example_loaded_analysis,
      rs_metadata = []\<rparr>"

definition example_agent :: "unit qa_agent" where
  "example_agent = load_repository_context init_agent (Some example_loaded_analysis) example_summary"

definition example_tree_agent :: "unit qa_agent" where
  "example_tree_agent = load_repository_context init_agent (Some example_analysis) example_summary"

definition eleven_questions :: "string list" where
  "eleven_questions = [''q1'', ''q2'', ''q3'', ''q4'', ''q5'', ''q6'', ''q7'', ''q8'', ''q9'',
     ''q10'', ''q11'']"

text \<open>An agent whose history is full: ten earlier exchanges.\<close>

definition example_entry :: history_entry where
  "example_entry =
     \<lparr>he_question = ''q0'', he_answer = ''ok'',
      he_context_used = \<lparr>qc_type = ''general'', qc_files = [], qc_functions = [],
        qc_classes = [], qc_components = [], qc_metadata = []\<rparr>\<rparr>"

definition example_full_agent :: "unit qa_agent" where
  "example_full_agent = init_agent\<lparr>conversation_history := replicate 10 example_entry\<rparr>"

section \<open>Strings: basic facts\<close>

lemma length_split_acc: "length (split_acc sep acc s) = 1 + count s sep"
  by (induction s arbitrary: acc) (simp_all add: count_def)

lemma length_split: "length (split s sep) = 1 + count s sep"
  by (simp add: split_def length_split_acc)

section \<open>The path classifier\<close>

lemma ignore_dirs_proper: "d \<in> set ignore_dirs \<Longrightarrow> d \<noteq> '''' \<and> d \<noteq> ''.''"
  by (auto simp: ignore_dirs_def)

lemma segment_in_parts:
  assumes "seg \<in> set (split path CHR ''/'')" and "seg \<in> set ignore_dirs"
  shows "seg \<in> set (parts path)"
proof -
  from assms(2) have "seg \<noteq> '''' \<and> seg \<noteq> ''.''" by (rule ignore_dirs_proper)
  with assms(1) have "seg \<in> set (path_tail path)" by (simp add: path_tail_def)
  then show ?thesis by (simp add: parts_def)
qed

text \<open>
  C4. A path one of whose \<open>/\<close>-separated segments is a member of the ignore-directory
  set is reported ignorable, whatever its file name and extension are.
\<close>

theorem ignored_segment_is_ignorable:
  assumes "seg \<in> set (split path CHR ''/'')" and "seg \<in> set ignore_dirs"
  shows "should_ignore_path path"
proof -
  from assms have "seg \<in> set (parts path)" by (rule segment_in_parts)
  with assms(2) have "list_ex (\<lambda>part. part \<in> set ignore_dirs) (parts path)"
    unfolding list_ex_iff by blast
  then show ?thesis by (simp add: should_ignore_path_def)
qed

section \<open>The file analyzer\<close>

lemma apply_extraction_keeps [simp]:
  "fi_lines (apply_extraction ex fi) = fi_lines fi"
  "fi_content (apply_extraction ex fi) = fi_content fi"
  "fi_content_preview (apply_extraction ex fi) = fi_content_preview fi"
  "fi_path (apply_extraction ex fi) = fi_path fi"
  "fi_language (apply_extraction ex fi) = fi_language fi"
  "fi_size (apply_extraction ex fi) = fi_size fi"
  by (simp_all add: apply_extraction_def)

lemma analyze_file_SomeD:
  assumes "analyze_file env file_path fd repo_root = Some fi"
  obtains c where "text_of fd = Some c" and "st_size fd \<le> 1024 * 1024"
    and "fi_lines fi = length (split c CHR 0x0A)"
    and "fi_content fi = (if retains_content file_path (get_file_language file_path) c
                          then Some c else None)"
    and "fi_content_preview fi = content_preview c"
    and "fi_language fi = get_file_language file_path"
proof (cases "text_of fd")
  case None
  with assms show ?thesis
    by (simp add: analyze_file_def Let_def split: if_splits)
next
  case (Some c)
  with assms show ?thesis
    by (intro that [of c]) (auto simp: analyze_file_def Let_def split: if_splits)
qed

text \<open>
  C3. For a successfully analyzed file whose decoded content is \<open>c\<close>, the record's line
  count is one more than the number of newline characters of \<open>c\<close>; an empty file has
  one line.
\<close>

theorem lines_is_newlines_plus_one:
  assumes "analyze_file env file_path fd repo_root = Some fi" and "text_of fd = Some c"
  shows "fi_lines fi = 1 + count c CHR 0x0A \<and> (c = [] \<longrightarrow> fi_lines fi = 1)"
proof -
  from assms(1) obtain c' where "text_of fd = Some c'"
    and "fi_lines fi = length (split c' CHR 0x0A)"
    by (rule analyze_file_SomeD)
  with assms(2) have "fi_lines fi = 1 + count c CHR 0x0A" by (simp add: length_split)
  then show ?thesis by (auto simp: count_def)
qed

theorem ignored_segment_is_ignorable_witness:
  "''node_modules'' \<in> set (split ''src/node_modules/x.py'' CHR ''/'') \<and>
   ''node_modules'' \<in> set ignore_dirs \<and> should_ignore_path ''src/node_modules/x.py''"
proof -
  have seg: "''node_modules'' \<in> set (split ''src/node_modules/x.py'' CHR ''/'')"
    by (simp add: split_def)
  have ign: "''node_modules'' \<in> set ignore_dirs"
    by (simp add: ignore_dirs_def)
  from ignored_segment_is_ignorable [OF seg ign] seg ign show ?thesis by blast
qed

section \<open>The example repository\<close>

lemma example_languages:
  "get_file_language ''repo/main.py'' = Some ''python''"
  "get_file_language ''repo/Makefile'' = None"
  "get_file_language ''repo/big.py'' = Some ''python''"
  by code_simp+

lemma example_walk:
  "walk ''repo'' example_tree =
     [(''repo/main.py'', \<lparr>st_size = 3, text_of = Some [CHR ''a'', CHR 0x0A, CHR ''b'']\<rparr>),
      (''repo/Makefile'', \<lparr>st_size = 4, text_of = Some ''all:''\<rparr>),
      (''repo/big.py'', \<lparr>st_size = 2097152, text_of = Some ''x''\<rparr>)]"
proof -
  have "\<not> should_ignore_path ''repo/main.py''" "\<not> should_ignore_path ''repo/Makefile''"
    "\<not> should_ignore_path ''repo/big.py''" "should_ignore_path ''repo/node_modules''"
    by code_simp+
  then show ?thesis
    by (simp add: example_tree_def kept_files_def path_join_def endswith_def)
qed

lemma example_analyze_file:
  "analyze_file example_env ''repo/main.py''
     \<lparr>st_size = 3, text_of = Some [CHR ''a'', CHR 0x0A, CHR ''b'']\<rparr> ''repo'' = Some example_main_info"
  "analyze_file example_env ''repo/Makefile''
     \<lparr>st_size = 4, text_of = Some ''all:''\<rparr> ''repo'' = Some example_makefile_info"
  "analyze_file example_env ''repo/big.py''
     \<lparr>st_size = 2097152, text_of = Some ''x''\<rparr> ''repo'' = None"
  by (simp_all add: analyze_file_def Let_def example_languages split_def retains_content_def
        content_preview_def run_strategy_def prose_languages_def example_env_def
        apply_extraction_def no_extraction_def example_main_info_def example_makefile_info_def)

lemma example_analyze_repository:
  "analyze_repository example_env ''repo'' example_tree = Some example_analysis"
proof -
  have "generate_directory_structure example_env ''repo'' = Some ()"
    by (simp add: example_env_def)
  then show ?thesis
    by (simp add: analyze_repository_def example_walk analyze_step_def example_analyze_file
          initial_analysis_def example_analysis_def update_languages_def
          example_main_info_def example_makefile_info_def)
qed

theorem lines_is_newlines_plus_one_witness:
  "analyze_file example_env ''repo/main.py''
     \<lparr>st_size = 3, text_of = Some [CHR ''a'', CHR 0x0A, CHR ''b'']\<rparr> ''repo'' = Some example_main_info \<and>
   fi_lines example_main_info = 1 + count [CHR ''a'', CHR 0x0A, CHR ''b''] CHR 0x0A \<and>
   fi_lines example_main_info = 2"
  using lines_is_newlines_plus_one [OF example_analyze_file(1), of "[CHR ''a'', CHR 0x0A, CHR ''b'']"]
  by (simp add: example_analyze_file(1) example_main_info_def)

section \<open>The content retention policy\<close>

text \<open>
  C2, as the code has it. The record of a successfully analyzed file keeps the full
  content exactly when the lowercased file name contains \<open>readme\<close>, or starts with
  \<open>license\<close>, \<open>changelog\<close> or \<open>contributing\<close>, or the language is markdown, text or
  restructuredtext, or the content is shorter than 5000 characters. The preview is
  always the first 500 characters, followed by \<open>...\<close> when the content is longer.
\<close>

theorem content_retention_policy:
  assumes "analyze_file env file_path fd repo_root = Some fi" and "text_of fd = Some c"
  shows "fi_content fi =
           (if str_in ''readme'' (lower (path_name file_path)) \<or>
               startswith (lower (path_name file_path)) ''license'' \<or>
               startswith (lower (path_name file_path)) ''changelog'' \<or>
               startswith (lower (path_name file_path)) ''contributing'' \<or>
               fi_language fi \<in> {Some ''markdown'', Some ''text'', Some ''restructuredtext''} \<or>
               length c < 5000
            then Some c else None) \<and>
         fi_content_preview fi = take 500 c @ (if 500 < length c then ''...'' else [])"
proof -
  from assms(1) obtain c' where c': "text_of fd = Some c'"
    and content: "fi_content fi =
      (if retains_content file_path (get_file_language file_path) c' then Some c' else None)"
    and preview: "fi_content_preview fi = content_preview c'"
    and lang: "fi_language fi = get_file_language file_path"
    by (rule analyze_file_SomeD)
  from c' assms(2) have "c' = c" by simp
  with content preview lang show ?thesis
    by (simp add: retains_content_def content_preview_def prose_languages_def Let_def)
qed

theorem content_retention_policy_witness:
  "analyze_file example_env ''repo/main.py''
     \<lparr>st_size = 3, text_of = Some [CHR ''a'', CHR 0x0A, CHR ''b'']\<rparr> ''repo'' = Some example_main_info \<and>
   fi_content example_main_info = Some [CHR ''a'', CHR 0x0A, CHR ''b''] \<and>
   fi_content_preview example_main_info = [CHR ''a'', CHR 0x0A, CHR ''b'']"
  using content_retention_policy [OF example_analyze_file(1), of "[CHR ''a'', CHR 0x0A, CHR ''b'']"]
  by (simp add: example_analyze_file(1) example_main_info_def)

lemma unlicense_name: "lower (path_name ''src/unlicense.py'') = ''unlicense.py''"
  by code_simp

lemma unlicense_language: "get_file_language ''src/unlicense.py'' = Some ''python''"
  by code_simp

theorem license_substring_counterexample:
  "spec_retains_content ''src/unlicense.py'' (Some ''python'') (replicate 5000 CHR ''x'') \<and>
   map_option fi_content
     (analyze_file example_env ''src/unlicense.py''
        \<lparr>st_size = 5000, text_of = Some (replicate 5000 CHR ''x'')\<rparr> ''src'') = Some None"
  by (simp add: spec_retains_content_def retains_content_def prose_languages_def
        unlicense_name unlicense_language analyze_file_def Let_def)

section \<open>The repository analyzer\<close>

lemma update_languages_sums:
  "lines_sum (update_languages lang n langs) = lines_sum langs + n"
  "files_sum (update_languages lang n langs) = files_sum langs + 1"
  by (induction langs)
    (auto simp: update_languages_def lines_sum_def files_sum_def Let_def split: option.splits)

lemma stats_inv_step: "stats_inv a \<Longrightarrow> stats_inv (analyze_step env repo a e)"
  by (auto simp: stats_inv_def analyze_step_def Let_def truthy_def update_languages_sums
      split: option.splits)

lemma stats_inv_foldl: "stats_inv a \<Longrightarrow> stats_inv (foldl (analyze_step env repo) a es)"
  by (induction es arbitrary: a) (simp_all add: stats_inv_step)

lemma stats_inv_initial: "stats_inv ((initial_analysis repo)\<lparr>total_files := n\<rparr>)"
  by (simp add: stats_inv_def initial_analysis_def lines_sum_def files_sum_def)

lemma sum_list_filter_le:
  "sum_list (map f (filter P xs)) \<le> sum_list (map f xs)" for f :: "'a \<Rightarrow> nat"
  by (induction xs) auto

lemma analyze_repository_inv:
  assumes "analyze_repository env repo tree = Some a"
  shows "stats_inv a"
proof -
  let ?start = "(initial_analysis repo)\<lparr>total_files := length (walk repo tree)\<rparr>"
  from assms obtain s where
    a: "a = (foldl (analyze_step env repo) ?start (walk repo tree))\<lparr>structure := Some s\<rparr>"
    by (auto simp: analyze_repository_def Let_def split: option.splits)
  have "stats_inv (foldl (analyze_step env repo) ?start (walk repo tree))"
    by (intro stats_inv_foldl stats_inv_initial)
  then show ?thesis unfolding a by (simp add: stats_inv_def)
qed

lemma files_step:
  "files (analyze_step env repo a e) =
     files a @ (case analyze_file env (fst e) (snd e) repo of None \<Rightarrow> [] | Some fi \<Rightarrow> [fi])"
  by (simp add: analyze_step_def Let_def split: option.splits)

lemma files_foldl:
  "files (foldl (analyze_step env repo) a es) =
     files a @ List.map_filter (\<lambda>e. analyze_file env (fst e) (snd e) repo) es"
proof (induction es arbitrary: a)
  case Nil
  show ?case by (simp add: List.map_filter_simps)
next
  case (Cons e es)
  show ?case
    by (cases "analyze_file env (fst e) (snd e) repo")
      (simp_all add: Cons.IH List.map_filter_simps files_step)
qed

lemma analyze_repository_files:
  assumes "analyze_repository env repo tree = Some a"
  shows "files a = List.map_filter (\<lambda>e. analyze_file env (fst e) (snd e) repo) (walk repo tree)"
proof -
  let ?start = "(initial_analysis repo)\<lparr>total_files := length (walk repo tree)\<rparr>"
  from assms obtain s where
    a: "a = (foldl (analyze_step env repo) ?start (walk repo tree))\<lparr>structure := Some s\<rparr>"
    by (auto simp: analyze_repository_def Let_def split: option.splits)
  show ?thesis unfolding a by (simp add: files_foldl initial_analysis_def)
qed

lemma analyze_file_language:
  "analyze_file env file_path fd repo = Some fi \<Longrightarrow> fi_language fi = get_file_language file_path"
  by (erule analyze_file_SomeD)

lemma dict_set_keys: "fst ` set (dict_set k v d) = insert k (fst ` set d)"
proof (induction d)
  case Nil
  show ?case by simp
next
  case (Cons p d)
  obtain k' v' where p: "p = (k', v')" by (cases p)
  show ?case unfolding p using Cons.IH
    by (cases "k' = k") (simp_all add: insert_commute)
qed

lemma update_languages_keys:
  "fst ` set (update_languages lang n langs) = insert lang (fst ` set langs)"
  by (simp add: update_languages_def Let_def dict_set_keys)

lemma keys_inv_step:
  assumes "fst ` set (languages a) = {l. l \<noteq> [] \<and> Some l \<in> fi_language ` set (files a)}"
  shows "fst ` set (languages (analyze_step env repo a e)) =
           {l. l \<noteq> [] \<and> Some l \<in> fi_language ` set (files (analyze_step env repo a e))}"
proof (cases "analyze_file env (fst e) (snd e) repo")
  case None
  with assms show ?thesis by (simp add: analyze_step_def)
next
  case (Some fa)
  show ?thesis
  proof (cases "fi_language fa")
    case None
    with Some assms show ?thesis by (auto simp: analyze_step_def Let_def)
  next
    case (Some l)
    with \<open>analyze_file env (fst e) (snd e) repo = Some fa\<close> assms show ?thesis
      by (auto simp: analyze_step_def Let_def update_languages_keys)
  qed
qed

lemma keys_inv_foldl:
  "fst ` set (languages a) = {l. l \<noteq> [] \<and> Some l \<in> fi_language ` set (files a)} \<Longrightarrow>
   fst ` set (languages (foldl (analyze_step env repo) a es)) =
     {l. l \<noteq> [] \<and> Some l \<in> fi_language ` set (files (foldl (analyze_step env repo) a es))}"
  by (induction es arbitrary: a) (simp_all add: keys_inv_step)

lemma analyze_repository_keys:
  assumes "analyze_repository env repo tree = Some a"
  shows "fst ` set (languages a) = {l. l \<noteq> [] \<and> Some l \<in> fi_language ` set (files a)}"
proof -
  let ?start = "(initial_analysis repo)\<lparr>total_files := length (walk repo tree)\<rparr>"
  from assms obtain s where
    a: "a = (foldl (analyze_step env repo) ?start (walk repo tree))\<lparr>structure := Some s\<rparr>"
    by (auto simp: analyze_repository_def Let_def split: option.splits)
  have "fst ` set (languages ?start) =
      {l. l \<noteq> [] \<and> Some l \<in> fi_language ` set (files ?start)}"
    by (simp add: initial_analysis_def)
  from keys_inv_foldl [OF this, of env repo "walk repo tree"] show ?thesis
    unfolding a by simp
qed

text \<open>
  C10. In the analysis of a successful run the files recorded are exactly the files of
  the walk that \<open>analyze_file\<close> accepts, in order, each with the language of its
  extension. Every one of them, with or without a language, is counted in
  \<open>analyzed_files\<close> and adds its lines to \<open>total_lines\<close>. The per-language buckets are
  exactly the languages of the recorded files, and their counts add up to the number
  and the lines of the files that have a language: so the per-language lines are at
  most \<open>total_lines\<close>, the per-language file counts are at most \<open>analyzed_files\<close>, and
  a file whose extension has no language is in no bucket.
\<close>

theorem language_totals_bounded:
  assumes "analyze_repository env repo tree = Some a"
  shows "lines_sum (languages a) \<le> total_lines (summary a) \<and>
         files_sum (languages a) \<le> analyzed_files a \<and>
         analyzed_files a = length (files a) \<and>
         total_lines (summary a) = sum_list (map fi_lines (files a)) \<and>
         lines_sum (languages a) =
           sum_list (map fi_lines (filter (\<lambda>fi. truthy (fi_language fi)) (files a))) \<and>
         files_sum (languages a) = length (filter (\<lambda>fi. truthy (fi_language fi)) (files a)) \<and>
         files a =
           List.map_filter (\<lambda>e. analyze_file env (fst e) (snd e) repo) (walk repo tree) \<and>
         (\<forall>e \<in> set (walk repo tree). \<forall>fi. analyze_file env (fst e) (snd e) repo = Some fi \<longrightarrow>
            fi \<in> set (files a) \<and> fi_language fi = get_file_language (fst e) \<and>
            (get_file_language (fst e) = None \<longrightarrow> \<not> truthy (fi_language fi))) \<and>
         fst ` set (languages a) = {l. l \<noteq> [] \<and> Some l \<in> fi_language ` set (files a)}"
proof -
  from assms have inv: "stats_inv a" by (rule analyze_repository_inv)
  from assms have fs: "files a =
      List.map_filter (\<lambda>e. analyze_file env (fst e) (snd e) repo) (walk repo tree)"
    by (rule analyze_repository_files)
  from assms have keys:
    "fst ` set (languages a) = {l. l \<noteq> [] \<and> Some l \<in> fi_language ` set (files a)}"
    by (rule analyze_repository_keys)
  have le1: "sum_list (map fi_lines (filter (\<lambda>fi. truthy (fi_language fi)) (files a)))
          \<le> sum_list (map fi_lines (files a))"
    by (rule sum_list_filter_le)
  have le2: "length (filter (\<lambda>fi. truthy (fi_language fi)) (files a)) \<le> length (files a)"
    by simp
  have each: "\<forall>e \<in> set (walk repo tree). \<forall>fi.
      analyze_file env (fst e) (snd e) repo = Some fi \<longrightarrow>
      fi \<in> set (files a) \<and> fi_language fi = get_file_language (fst e) \<and>
      (get_file_language (fst e) = None \<longrightarrow> \<not> truthy (fi_language fi))"
  proof (intro ballI allI impI)
    fix e fi
    assume e: "e \<in> set (walk repo tree)"
      and fi: "analyze_file env (fst e) (snd e) repo = Some fi"
    from e fi have "fi \<in> set (files a)"
      unfolding fs by (force simp: List.map_filter_def)
    moreover from fi have "fi_language fi = get_file_language (fst e)"
      by (rule analyze_file_language)
    ultimately show "fi \<in> set (files a) \<and> fi_language fi = get_file_language (fst e) \<and>
        (get_file_language (fst e) = None \<longrightarrow> \<not> truthy (fi_language fi))"
      by (simp add: truthy_def)
  qed
  from inv le1 le2 have "lines_sum (languages a) \<le> total_lines (summary a) \<and>
         files_sum (languages a) \<le> analyzed_files a \<and>
         analyzed_files a = length (files a) \<and>
         total_lines (summary a) = sum_list (map fi_lines (files a)) \<and>
         lines_sum (languages a) =
           sum_list (map fi_lines (filter (\<lambda>fi. truthy (fi_language fi)) (files a))) \<and>
         files_sum (languages a) = length (filter (\<lambda>fi. truthy (fi_language fi)) (files a))"
    by (simp add: stats_inv_def)
  with fs each keys show ?thesis by blast
qed

theorem language_totals_bounded_witness:
  "analyze_repository example_env ''repo'' example_tree = Some example_analysis \<and>
   (''repo/Makefile'', \<lparr>st_size = 4, text_of = Some ''all:''\<rparr>) \<in> set (walk ''repo'' example_tree) \<and>
   analyze_file example_env ''repo/Makefile'' \<lparr>st_size = 4, text_of = Some ''all:''\<rparr> ''repo'' =
     Some example_makefile_info \<and>
   get_file_language ''repo/Makefile'' = None \<and>
   example_makefile_info \<in> set (files example_analysis) \<and>
   \<not> truthy (fi_language example_makefile_info) \<and>
   lines_sum (languages example_analysis) = 2 \<and> total_lines (summary example_analysis) = 3 \<and>
   files_sum (languages example_analysis) = 1 \<and> analyzed_files example_analysis = 2 \<and>
   fst ` set (languages example_analysis) = {''python''}"
proof -
  note bounded = language_totals_bounded [OF example_analyze_repository]
  have mem: "(''repo/Makefile'', \<lparr>st_size = 4, text_of = Some ''all:''\<rparr>)
      \<in> set (walk ''repo'' example_tree)"
    by (simp add: example_walk)
  from bounded mem example_analyze_file(2)
  have "example_makefile_info \<in> set (files example_analysis) \<and>
      fi_language example_makefile_info = get_file_language ''repo/Makefile'' \<and>
      (get_file_language ''repo/Makefile'' = None \<longrightarrow>
         \<not> truthy (fi_language example_makefile_info))"
    by force
  with mem show ?thesis
    by (simp add: example_analyze_repository example_analyze_file example_languages
          example_analysis_def lines_sum_def files_sum_def truthy_def)
qed

section \<open>The importance ranker\<close>

lemma lower_example_paths:
  "lower ''main.py'' = ''main.py''" "lower ''utils_helpers.py'' = ''utils_helpers.py''"
  "lower ''Makefile'' = ''makefile''"
  by code_simp+

lemma score_main:
  assumes "fi_path f = ''main.py''" and "fi_language f = Some ''python''"
    and "fi_lines f = 30" and "length (fi_functions f) = 2" and "fi_classes f = []"
  shows "calculate_importance_score f = 91"
  using assms
  by (simp add: calculate_importance_score_def lower_example_paths any_in_def endswith_def
        count_def)

lemma score_helpers:
  assumes "fi_path f = ''utils_helpers.py''" and "fi_language f = Some ''python''"
    and "fi_lines f = 500" and "fi_functions f = []" and "fi_classes f = []"
  shows "calculate_importance_score f = 45"
  using assms
  by (simp add: calculate_importance_score_def lower_example_paths any_in_def endswith_def
        count_def)

lemma ranking_scores:
  "map (\<lambda>x. - calculate_importance_score x) (get_important_files fs) =
   map (\<lambda>x. - snd x)
     (sort_key (\<lambda>x. - snd x) (map (\<lambda>f. (f, calculate_importance_score f)) fs))"
  by (auto simp: get_important_files_def Let_def)

lemma ranking_sorted:
  "sorted (map (\<lambda>x. - calculate_importance_score x) (get_important_files fs))"
  unfolding ranking_scores by (rule sorted_sort_key)

lemma ranking_set: "set (get_important_files fs) = set fs"
  by (force simp: get_important_files_def Let_def)

lemma ranking_length: "length (get_important_files fs) = length fs"
  by (simp add: get_important_files_def Let_def)

lemma ranking_order:
  assumes "i < length fs" and "j < length fs"
    and "calculate_importance_score (get_important_files fs ! j)
           < calculate_importance_score (get_important_files fs ! i)"
  shows "i < j"
proof (rule ccontr)
  assume "\<not> i < j"
  then have ji: "j \<le> i" by simp
  let ?r = "map (\<lambda>x. - calculate_importance_score x) (get_important_files fs)"
  from assms(1) have "i < length ?r" by (simp add: ranking_length)
  with ranking_sorted [of fs] ji have "?r ! j \<le> ?r ! i"
    by (rule sorted_nth_mono)
  with assms(1,2) ji have "calculate_importance_score (get_important_files fs ! i)
      \<le> calculate_importance_score (get_important_files fs ! j)"
    by (simp add: ranking_length)
  with assms(3) show False by simp
qed

text \<open>
  C8. A 30-line python file \<open>main.py\<close> with two functions and no class scores 91, a
  500-line python file \<open>utils_helpers.py\<close> without functions and classes scores 45. The
  ranking of any list of files is a rearrangement of the list in descending order of
  score, so wherever the two files stand in the list, and whatever other files it holds,
  every occurrence of \<open>main.py\<close> in the ranking comes before every occurrence of
  \<open>utils_helpers.py\<close>; for the two files alone the ranking is \<open>main.py\<close>, then
  \<open>utils_helpers.py\<close>.
\<close>

theorem main_ranks_above_helpers:
  assumes "fi_path f1 = ''main.py''" and "fi_language f1 = Some ''python''"
    and "fi_lines f1 = 30" and "length (fi_functions f1) = 2" and "fi_classes f1 = []"
    and "fi_path f2 = ''utils_helpers.py''" and "fi_language f2 = Some ''python''"
    and "fi_lines f2 = 500" and "fi_functions f2 = []" and "fi_classes f2 = []"
  shows "calculate_importance_score f1 = 91 \<and> calculate_importance_score f2 = 45 \<and>
         calculate_importance_score f2 < calculate_importance_score f1 \<and>
         sorted (map (\<lambda>x. - calculate_importance_score x) (get_important_files fs)) \<and>
         set (get_important_files fs) = set fs \<and>
         length (get_important_files fs) = length fs \<and>
         (\<forall>i j. i < length fs \<longrightarrow> j < length fs \<longrightarrow>
            get_important_files fs ! i = f1 \<longrightarrow> get_important_files fs ! j = f2 \<longrightarrow> i < j) \<and>
         get_important_files [f2, f1] = [f1, f2] \<and>
         get_important_files [f1, f2] = [f1, f2]"
proof -
  have s1: "calculate_importance_score f1 = 91"
    using assms(1-5) by (rule score_main)
  have s2: "calculate_importance_score f2 = 45"
    using assms(6-10) by (rule score_helpers)
  have order: "\<forall>i j. i < length fs \<longrightarrow> j < length fs \<longrightarrow>
      get_important_files fs ! i = f1 \<longrightarrow> get_important_files fs ! j = f2 \<longrightarrow> i < j"
  proof (intro allI impI)
    fix i j
    assume "i < length fs" "j < length fs"
      and "get_important_files fs ! i = f1" "get_important_files fs ! j = f2"
    then show "i < j"
      by (intro ranking_order [of i fs j]) (simp_all add: s1 s2)
  qed
  have two: "get_important_files [f2, f1] = [f1, f2] \<and> get_important_files [f1, f2] = [f1, f2]"
    by (simp add: get_important_files_def s1 s2)
  from s1 s2 order two ranking_sorted [of fs] ranking_set [of fs] ranking_length [of fs]
  show ?thesis by simp
qed

lemma score_makefile: "calculate_importance_score example_makefile_info = 15"
  by (simp add: calculate_importance_score_def example_makefile_info_def lower_example_paths
        any_in_def endswith_def count_def)

theorem main_ranks_above_helpers_witness:
  "calculate_importance_score example_scored_main = 91 \<and>
   calculate_importance_score example_scored_helpers = 45 \<and>
   get_important_files [example_scored_helpers, example_makefile_info, example_scored_main] =
     [example_scored_main, example_scored_helpers, example_makefile_info] \<and>
   get_important_files [example_scored_helpers, example_makefile_info, example_scored_main] ! 0 =
     example_scored_main \<and>
   get_important_files [example_scored_helpers, example_makefile_info, example_scored_main] ! 1 =
     example_scored_helpers \<and>
   set (get_important_files
     [example_scored_helpers, example_makefile_info, example_scored_main]) =
     {example_scored_helpers, example_makefile_info, example_scored_main} \<and>
   get_important_files [example_scored_helpers, example_scored_main] =
     [example_scored_main, example_scored_helpers]"
proof -
  have three: "get_important_files
      [example_scored_helpers, example_makefile_info, example_scored_main] =
      [example_scored_main, example_scored_helpers, example_makefile_info]"
  proof -
    have m: "calculate_importance_score example_scored_main = 91"
      by (rule score_main) (simp_all add: example_scored_main_def)
    have h: "calculate_importance_score example_scored_helpers = 45"
      by (rule score_helpers) (simp_all add: example_scored_helpers_def)
    show ?thesis by (simp add: get_important_files_def m h score_makefile)
  qed
  have "fi_path example_scored_main = ''main.py''"
    "fi_language example_scored_main = Some ''python''"
    "fi_lines example_scored_main = 30" "length (fi_functions example_scored_main) = 2"
    "fi_classes example_scored_main = []"
    "fi_path example_scored_helpers = ''utils_helpers.py''"
    "fi_language example_scored_helpers = Some ''python''"
    "fi_lines example_scored_helpers = 500" "fi_functions example_scored_helpers = []"
    "fi_classes example_scored_helpers = []"
    by (simp_all add: example_scored_main_def example_scored_helpers_def)
  from main_ranks_above_helpers [OF this,
      of "[example_scored_helpers, example_makefile_info, example_scored_main]"]
  have "calculate_importance_score example_scored_main = 91 \<and>
     calculate_importance_score example_scored_helpers = 45 \<and>
     set (get_important_files
       [example_scored_helpers, example_makefile_info, example_scored_main]) =
       {example_scored_helpers, example_makefile_info, example_scored_main} \<and>
     get_important_files [example_scored_helpers, example_scored_main] =
       [example_scored_main, example_scored_helpers]"
    by simp
  with three show ?thesis by simp
qed

section \<open>The conversation history\<close>

lemma last_n_short: "length xs \<le> n \<Longrightarrow> last_n n xs = xs"
  by (simp add: last_n_def)

lemma length_last_n: "length (last_n n xs) \<le> n"
  by (simp add: last_n_def)

lemma last_n_rev: "last_n n xs = rev (take n (rev xs))"
  by (simp add: last_n_def rev_take)

lemma last_n_append_last_n: "last_n n (last_n n xs @ ys) = last_n n (xs @ ys)"
  by (simp add: last_n_rev min_def)

lemma last_n_full: "length xs = n \<Longrightarrow> 0 < n \<Longrightarrow> last_n n (xs @ [x]) = tl xs @ [x]"
  by (cases xs) (simp_all add: last_n_def)

lemma answer_question_cases:
  obtains (failed) e where "answer_question env agent q = ((apology e, None), agent)"
      and "generate_answer env q
             (prepare_context_for_llm env agent (extract_relevant_context agent q) q) = Inl e"
  | (completed) answer where
      "answer_question env agent q =
         ((answer, Some (extract_relevant_context agent q)),
          agent\<lparr>conversation_history := last_n 10 (conversation_history agent @
             [\<lparr>he_question = q, he_answer = answer,
               he_context_used = extract_relevant_context agent q\<rparr>])\<rparr>)"
      and "generate_answer env q
             (prepare_context_for_llm env agent (extract_relevant_context agent q) q) = Inr answer"
proof (cases "generate_answer env q
       (prepare_context_for_llm env agent (extract_relevant_context agent q) q)")
  case (Inl e)
  then show ?thesis by (intro failed [of e]) (simp_all add: answer_question_def Let_def)
next
  case (Inr answer)
  then show ?thesis
    by (intro completed [of answer]) (simp_all add: answer_question_def Let_def last_n_short)
qed

lemma ask_all_history:
  "length (conversation_history agent) \<le> 10 \<Longrightarrow>
   conversation_history (fst (ask_all env agent qs)) =
     last_n 10 (conversation_history agent @ snd (ask_all env agent qs))"
proof (induction qs arbitrary: agent)
  case Nil
  then show ?case by (simp add: last_n_short)
next
  case (Cons q qs)
  show ?case
  proof (cases rule: answer_question_cases [of env agent q])
    case (failed e)
    with Cons show ?thesis by simp
  next
    case (completed answer)
    let ?e = "\<lparr>he_question = q, he_answer = answer,
               he_context_used = extract_relevant_context agent q\<rparr>"
    let ?agent' = "agent\<lparr>conversation_history := last_n 10 (conversation_history agent @ [?e])\<rparr>"
    have "length (conversation_history ?agent') \<le> 10" by (simp add: length_last_n)
    from Cons.IH [OF this]
    have "conversation_history (fst (ask_all env ?agent' qs)) =
        last_n 10 ((conversation_history agent @ [?e]) @ snd (ask_all env ?agent' qs))"
      by (simp add: last_n_append_last_n)
    with completed(1) show ?thesis by (simp add: split_beta)
  qed
qed

lemma completed_step:
  assumes "answer_question env agent q = ((answer, Some c), agent')"
  shows "c = extract_relevant_context agent q"
    and "conversation_history agent' = last_n 10 (conversation_history agent @
             [\<lparr>he_question = q, he_answer = answer, he_context_used = c\<rparr>])"
  using assms by (cases rule: answer_question_cases [of env agent q]; auto)+

text \<open>
  C6. One completed exchange appends its entry and keeps the last ten entries: the
  history afterwards has at most ten entries, and when it had ten before, the oldest
  one is dropped and the others keep their order. Over a whole session that starts with
  at most ten entries, the history at the end is the last ten entries of the earlier
  history followed by the completed exchanges in the order they were asked.
\<close>

theorem history_bounded_fifo:
  assumes "length (conversation_history agent) \<le> 10"
  shows "length (conversation_history (fst (ask_all env agent qs))) \<le> 10 \<and>
         conversation_history (fst (ask_all env agent qs)) =
           last_n 10 (conversation_history agent @ snd (ask_all env agent qs)) \<and>
         (\<forall>answer c agent'. answer_question env agent q = ((answer, Some c), agent') \<longrightarrow>
            length (conversation_history agent') \<le> 10 \<and>
            conversation_history agent' =
              last_n 10 (conversation_history agent @
                [\<lparr>he_question = q, he_answer = answer, he_context_used = c\<rparr>]) \<and>
            (length (conversation_history agent) < 10 \<longrightarrow>
               conversation_history agent' = conversation_history agent @
                 [\<lparr>he_question = q, he_answer = answer, he_context_used = c\<rparr>]) \<and>
            (length (conversation_history agent) = 10 \<longrightarrow>
               conversation_history agent' = tl (conversation_history agent) @
                 [\<lparr>he_question = q, he_answer = answer, he_context_used = c\<rparr>]))"
proof -
  have session: "conversation_history (fst (ask_all env agent qs)) =
      last_n 10 (conversation_history agent @ snd (ask_all env agent qs))"
    using assms by (rule ask_all_history)
  then have bound: "length (conversation_history (fst (ask_all env agent qs))) \<le> 10"
    by (simp add: length_last_n)
  have step: "\<forall>answer c agent'. answer_question env agent q = ((answer, Some c), agent') \<longrightarrow>
            length (conversation_history agent') \<le> 10 \<and>
            conversation_history agent' =
              last_n 10 (conversation_history agent @
                [\<lparr>he_question = q, he_answer = answer, he_context_used = c\<rparr>]) \<and>
            (length (conversation_history agent) < 10 \<longrightarrow>
               conversation_history agent' = conversation_history agent @
                 [\<lparr>he_question = q, he_answer = answer, he_context_used = c\<rparr>]) \<and>
            (length (conversation_history agent) = 10 \<longrightarrow>
               conversation_history agent' = tl (conversation_history agent) @
                 [\<lparr>he_question = q, he_answer = answer, he_context_used = c\<rparr>])"
  proof (intro allI impI)
    fix answer c agent'
    assume "answer_question env agent q = ((answer, Some c), agent')"
    then have h: "conversation_history agent' = last_n 10 (conversation_history agent @
             [\<lparr>he_question = q, he_answer = answer, he_context_used = c\<rparr>])"
      by (rule completed_step(2))
    show "length (conversation_history agent') \<le> 10 \<and>
            conversation_history agent' =
              last_n 10 (conversation_history agent @
                [\<lparr>he_question = q, he_answer = answer, he_context_used = c\<rparr>]) \<and>
            (length (conversation_history agent) < 10 \<longrightarrow>
               conversation_history agent' = conversation_history agent @
                 [\<lparr>he_question = q, he_answer = answer, he_context_used = c\<rparr>]) \<and>
            (length (conversation_history agent) = 10 \<longrightarrow>
               conversation_history agent' = tl (conversation_history agent) @
                 [\<lparr>he_question = q, he_answer = answer, he_context_used = c\<rparr>])"
      unfolding h by (simp add: length_last_n last_n_short last_n_full)
  qed
  from bound session step show ?thesis by blast
qed

lemma echo_completes:
  "generate_answer echo_env q t = Inr ''ok''"
  by (simp add: generate_answer_def echo_env_def)

lemma echo_answer:
  "answer_question echo_env agent q =
     ((''ok'', Some (extract_relevant_context agent q)),
      agent\<lparr>conversation_history := last_n 10 (conversation_history agent @
         [\<lparr>he_question = q, he_answer = ''ok'',
           he_context_used = extract_relevant_context agent q\<rparr>])\<rparr>)"
  by (cases rule: answer_question_cases [of echo_env agent q]) (simp_all add: echo_completes)

lemma echo_log: "map he_question (snd (ask_all echo_env agent qs)) = qs"
proof (induction qs arbitrary: agent)
  case Nil show ?case by simp
next
  case (Cons q qs)
  then show ?case by (simp add: echo_answer split_beta)
qed

theorem history_bounded_fifo_witness:
  "length (conversation_history example_full_agent) = 10 \<and>
   conversation_history (snd (answer_question echo_env example_full_agent ''q11'')) =
     replicate 9 example_entry @
       [\<lparr>he_question = ''q11'', he_answer = ''ok'',
         he_context_used = extract_relevant_context example_full_agent ''q11''\<rparr>] \<and>
   map he_question (conversation_history
     (fst (ask_all echo_env (init_agent :: unit qa_agent) eleven_questions))) =
     [''q2'', ''q3'', ''q4'', ''q5'', ''q6'', ''q7'', ''q8'', ''q9'', ''q10'', ''q11'']"
proof -
  have len: "length (conversation_history example_full_agent) = 10"
    by (simp add: example_full_agent_def)
  have tl: "tl (conversation_history example_full_agent) = replicate 9 example_entry"
    by (simp add: example_full_agent_def numeral_eq_Suc)
  have "length (conversation_history example_full_agent) \<le> 10" using len by simp
  from history_bounded_fifo [OF this, of echo_env "[]" "''q11''"] len
  have "\<forall>answer c agent'.
      answer_question echo_env example_full_agent ''q11'' = ((answer, Some c), agent') \<longrightarrow>
      conversation_history agent' = tl (conversation_history example_full_agent) @
        [\<lparr>he_question = ''q11'', he_answer = answer, he_context_used = c\<rparr>]"
    by blast
  then have one: "conversation_history (snd (answer_question echo_env example_full_agent ''q11'')) =
     replicate 9 example_entry @
       [\<lparr>he_question = ''q11'', he_answer = ''ok'',
         he_context_used = extract_relevant_context example_full_agent ''q11''\<rparr>]"
    unfolding tl by (simp add: echo_answer)
  have l: "last_n 10 eleven_questions =
      [''q2'', ''q3'', ''q4'', ''q5'', ''q6'', ''q7'', ''q8'', ''q9'', ''q10'', ''q11'']"
    by (simp add: last_n_def eleven_questions_def)
  have m: "map he_question (last_n 10 xs) = last_n 10 (map he_question xs)" for xs
    by (simp add: last_n_def drop_map)
  have "length (conversation_history (init_agent :: unit qa_agent)) \<le> 10"
    by (simp add: init_agent_def)
  from history_bounded_fifo [OF this, of echo_env eleven_questions "[]"]
  have "conversation_history (fst (ask_all echo_env (init_agent :: unit qa_agent) eleven_questions)) =
      last_n 10 (snd (ask_all echo_env (init_agent :: unit qa_agent) eleven_questions))"
    by (simp add: init_agent_def)
  then have "map he_question (conversation_history
     (fst (ask_all echo_env (init_agent :: unit qa_agent) eleven_questions))) =
     [''q2'', ''q3'', ''q4'', ''q5'', ''q6'', ''q7'', ''q8'', ''q9'', ''q10'', ''q11'']"
    by (simp only: m echo_log l)
  with len one show ?thesis by simp
qed

text \<open>
  C9. When the call of the text generator raises, \<open>answer_question\<close> returns the apology
  and the empty context, and the agent, with its history, is what it was before the
  call. Conversely a result with the empty context only comes from such a failure, and
  a result with a context comes from a completed exchange, whose entry is the one
  appended.
\<close>

theorem failed_answer_keeps_history:
  "(\<forall>e. generate_answer env q
          (prepare_context_for_llm env agent (extract_relevant_context agent q) q) = Inl e \<longrightarrow>
        answer_question env agent q = ((apology e, None), agent)) \<and>
   (\<forall>answer agent'. answer_question env agent q = ((answer, None), agent') \<longrightarrow>
        agent' = agent \<and> conversation_history agent' = conversation_history agent \<and>
        (\<exists>e. answer = apology e \<and>
           generate_answer env q
             (prepare_context_for_llm env agent (extract_relevant_context agent q) q) = Inl e)) \<and>
   (\<forall>answer c agent'. answer_question env agent q = ((answer, Some c), agent') \<longrightarrow>
        generate_answer env q
          (prepare_context_for_llm env agent (extract_relevant_context agent q) q) = Inr answer \<and>
        conversation_history agent' =
          last_n 10 (conversation_history agent @
            [\<lparr>he_question = q, he_answer = answer, he_context_used = c\<rparr>]))"
proof (cases rule: answer_question_cases [of env agent q])
  case (failed e)
  then show ?thesis by auto
next
  case (completed answer)
  then show ?thesis by auto
qed

theorem failed_answer_keeps_history_witness:
  "generate_answer failing_env ''What does run do?''
     (prepare_context_for_llm failing_env example_agent
        (extract_relevant_context example_agent ''What does run do?'') ''What does run do?'') =
     Inl (Exception ''timeout'') \<and>
   answer_question failing_env example_agent ''What does run do?'' =
     ((apology (Exception ''timeout''), None), example_agent) \<and>
   conversation_history (snd (answer_question failing_env example_agent ''What does run do?'')) =
     conversation_history example_agent \<and>
   answer_question echo_env example_agent ''What does run do?'' =
     ((''ok'', Some (extract_relevant_context example_agent ''What does run do?'')),
      example_agent\<lparr>conversation_history :=
        [\<lparr>he_question = ''What does run do?'', he_answer = ''ok'',
          he_context_used = extract_relevant_context example_agent ''What does run do?''\<rparr>]\<rparr>)"
proof -
  have g: "generate_answer failing_env ''What does run do?''
     (prepare_context_for_llm failing_env example_agent
        (extract_relevant_context example_agent ''What does run do?'') ''What does run do?'') =
     Inl (Exception ''timeout'')"
    by (simp add: generate_answer_def failing_env_def)
  have h: "conversation_history example_agent = []"
    by (simp add: example_agent_def load_repository_context_def init_agent_def Let_def)
  from failed_answer_keeps_history [of failing_env "''What does run do?''" example_agent] g
  have a: "answer_question failing_env example_agent ''What does run do?'' =
     ((apology (Exception ''timeout''), None), example_agent)"
    by blast
  have b: "answer_question echo_env example_agent ''What does run do?'' =
     ((''ok'', Some (extract_relevant_context example_agent ''What does run do?'')),
      example_agent\<lparr>conversation_history :=
        [\<lparr>he_question = ''What does run do?'', he_answer = ''ok'',
          he_context_used = extract_relevant_context example_agent ''What does run do?''\<rparr>]\<rparr>)"
    by (simp add: echo_answer h last_n_short)
  from g a b show ?thesis by simp
qed

section \<open>Context extraction\<close>

lemma qc_type_stages:
  "qc_type (file_mentions idx ql c) = qc_type c"
  "qc_type (readme_handling idx ql c) = (if str_in ''readme'' ql then ''readme'' else qc_type c)"
  "qc_type (documentation_handling idx ql c) =
     (if any_in [''documentation'', ''docs'', ''doc''] ql then ''documentation'' else qc_type c)"
  "qc_type (name_mentions idx ql c) = qc_type c"
  "qc_type (general_context idx c) = qc_type c"
  by (simp_all add: file_mentions_def readme_handling_def documentation_handling_def
        name_mentions_def general_context_def Let_def)

lemma qc_files_stages:
  "qc_files (file_mentions idx ql c) = qc_files c @
     map snd (filter (\<lambda>(file_path, file_info).
        list_ex (\<lambda>part. str_in part ql)
          (filter (\<lambda>part. length part > 3) (split file_path CHR ''/''))) (si_files idx))"
  "qc_files (readme_handling idx ql c) = qc_files c @
     (if str_in ''readme'' ql
      then map snd (filter (\<lambda>(file_path, file_info). str_in ''readme'' (lower file_path))
             (si_files idx))
      else [])"
  "qc_files (documentation_handling idx ql c) = qc_files c @
     (if any_in [''documentation'', ''docs'', ''doc''] ql
      then map snd (filter (\<lambda>(file_path, file_info).
             any_in [''readme'', ''doc'', ''guide'', ''manual''] (lower file_path)) (si_files idx))
      else [])"
  "qc_files (name_mentions idx ql c) = qc_files c"
  by (simp_all add: file_mentions_def readme_handling_def documentation_handling_def
        name_mentions_def Let_def)

lemma qc_files_general_context:
  "qc_type c \<noteq> ''file'' \<Longrightarrow> qc_files (general_context idx c) = qc_files c"
  by (simp add: general_context_def)

lemma qc_type_extract:
  "qc_type (extract_relevant_context agent q) =
     (if any_in [''documentation'', ''docs'', ''doc''] (lower q) then ''documentation''
      else if str_in ''readme'' (lower q) then ''readme''
      else question_type (lower q))"
  by (simp add: extract_relevant_context_def Let_def qc_type_stages)

lemma qc_files_extract_readme:
  assumes "str_in ''readme'' (lower q)"
  shows "qc_files (extract_relevant_context agent q) =
     map snd (filter (\<lambda>(file_path, file_info).
        list_ex (\<lambda>part. str_in part (lower q))
          (filter (\<lambda>part. length part > 3) (split file_path CHR ''/'')))
       (si_files (search_index agent))) @
     map snd (filter (\<lambda>(file_path, file_info). str_in ''readme'' (lower file_path))
       (si_files (search_index agent))) @
     (if any_in [''documentation'', ''docs'', ''doc''] (lower q)
      then map snd (filter (\<lambda>(file_path, file_info).
             any_in [''readme'', ''doc'', ''guide'', ''manual''] (lower file_path))
            (si_files (search_index agent)))
      else [])"
proof -
  let ?idx = "search_index agent"
  let ?c = "name_mentions ?idx (lower q) (documentation_handling ?idx (lower q)
      (readme_handling ?idx (lower q) (file_mentions ?idx (lower q)
        \<lparr>qc_type = question_type (lower q), qc_files = [], qc_functions = [],
          qc_classes = [], qc_components = [],
          qc_metadata = cc_metadata (context_cache agent)\<rparr>)))"
  have e: "extract_relevant_context agent q = general_context ?idx ?c"
    by (simp only: extract_relevant_context_def Let_def)
  have "qc_type ?c \<noteq> ''file''"
    using assms by (simp add: qc_type_stages)
  then have "qc_files (extract_relevant_context agent q) = qc_files ?c"
    unfolding e by (rule qc_files_general_context)
  then show ?thesis using assms by (simp add: qc_files_stages)
qed

lemma example_questions:
  "str_in ''readme'' (lower ''Where is the readme documentation?'')"
  "any_in [''documentation'', ''docs'', ''doc''] (lower ''Where is the readme documentation?'')"
  "str_in ''readme'' (lower ''What is in the README?'')"
  "\<not> any_in [''documentation'', ''docs'', ''doc''] (lower ''What is in the README?'')"
  "str_in ''readme'' (lower ''readme.md'')"
  by code_simp+

lemma lower_example_index_paths:
  "lower ''README.md'' = ''readme.md''"
  by code_simp

lemma si_files_index_file:
  "si_files (index_file idx file_info) =
     dict_set (lower (fi_path file_info)) file_info (si_files idx)"
  by (simp add: index_file_def)

lemma si_files_components: "si_files (foldl index_component idx cs) = si_files idx"
  by (induction cs arbitrary: idx) (simp_all add: index_component_def)

lemma example_agent_files:
  "si_files (search_index example_agent) =
     [(''readme.md'', example_readme_info), (''main.py'', example_scored_main)]"
proof -
  have p: "fi_path example_readme_info = ''README.md''" "fi_path example_scored_main = ''main.py''"
    by (simp_all add: example_readme_info_def example_scored_main_def)
  show ?thesis
    by (simp add: example_agent_def load_repository_context_def build_search_index_def
          cache_files_def example_loaded_analysis_def example_summary_def si_files_components
          si_files_index_file empty_index_def p lower_example_index_paths lower_example_paths)
qed

text \<open>
  C7. The question ``Where is the readme documentation?'' contains \<open>readme\<close>, and the
  context extracted for it has the intent \<open>documentation\<close>: the documentation override
  runs after the readme override.
\<close>

theorem readme_doc_counterexample:
  "str_in ''readme'' (lower ''Where is the readme documentation?'') \<and>
   qc_type (extract_relevant_context example_agent ''Where is the readme documentation?'') =
     ''documentation'' \<and>
   qc_type (extract_relevant_context example_agent ''Where is the readme documentation?'') \<noteq>
     ''readme''"
  by (simp add: qc_type_extract example_questions)

text \<open>
  C7, amended. When the lowercased question contains \<open>readme\<close>, the intent of the
  extracted context is \<open>documentation\<close> if the lowercased question also contains
  \<open>documentation\<close>, \<open>docs\<close> or \<open>doc\<close>, and \<open>readme\<close> otherwise, whatever the keyword
  classification says. The selected files are the files named in the question, then
  every indexed file whose path contains \<open>readme\<close>, then, for a documentation question,
  the files whose path contains \<open>readme\<close>, \<open>doc\<close>, \<open>guide\<close> or \<open>manual\<close>; so every
  indexed file whose path contains \<open>readme\<close> is selected.
\<close>

theorem readme_override:
  assumes "str_in ''readme'' (lower q)"
  shows "qc_type (extract_relevant_context agent q) =
           (if any_in [''documentation'', ''docs'', ''doc''] (lower q) then ''documentation''
            else ''readme'') \<and>
         qc_files (extract_relevant_context agent q) =
           map snd (filter (\<lambda>(file_path, file_info).
              list_ex (\<lambda>part. str_in part (lower q))
                (filter (\<lambda>part. length part > 3) (split file_path CHR ''/'')))
             (si_files (search_index agent))) @
           map snd (filter (\<lambda>(file_path, file_info). str_in ''readme'' (lower file_path))
             (si_files (search_index agent))) @
           (if any_in [''documentation'', ''docs'', ''doc''] (lower q)
            then map snd (filter (\<lambda>(file_path, file_info).
                   any_in [''readme'', ''doc'', ''guide'', ''manual''] (lower file_path))
                  (si_files (search_index agent)))
            else []) \<and>
         (\<forall>(file_path, file_info) \<in> set (si_files (search_index agent)).
            str_in ''readme'' (lower file_path) \<longrightarrow>
            file_info \<in> set (qc_files (extract_relevant_context agent q)))"
proof -
  have t: "qc_type (extract_relevant_context agent q) =
           (if any_in [''documentation'', ''docs'', ''doc''] (lower q) then ''documentation''
            else ''readme'')"
    using assms by (simp add: qc_type_extract)
  note f = qc_files_extract_readme [OF assms, of agent]
  have m: "\<forall>(file_path, file_info) \<in> set (si_files (search_index agent)).
            str_in ''readme'' (lower file_path) \<longrightarrow>
            file_info \<in> set (qc_files (extract_relevant_context agent q))"
    unfolding f by force
  from t f m show ?thesis by blast
qed

theorem readme_override_witness:
  "str_in ''readme'' (lower ''What is in the README?'') \<and>
   (''readme.md'', example_readme_info) \<in> set (si_files (search_index example_agent)) \<and>
   str_in ''readme'' (lower ''readme.md'') \<and>
   qc_type (extract_relevant_context example_agent ''What is in the README?'') = ''readme'' \<and>
   example_readme_info \<in>
     set (qc_files (extract_relevant_context example_agent ''What is in the README?''))"
proof -
  have mem: "(''readme.md'', example_readme_info) \<in> set (si_files (search_index example_agent))"
    by (simp add: example_agent_files)
  from readme_override [OF example_questions(3), of example_agent] mem example_questions(5)
  have "example_readme_info \<in>
     set (qc_files (extract_relevant_context example_agent ''What is in the README?''))"
    by blast
  moreover from readme_override [OF example_questions(3), of example_agent]
  have "qc_type (extract_relevant_context example_agent ''What is in the README?'') = ''readme''"
    by (simp add: example_questions)
  ultimately show ?thesis using mem by (simp add: example_questions)
qed

section \<open>The search index\<close>

lemma lower_Nil_iff: "lower s = [] \<longleftrightarrow> s = []"
  by (simp add: lower_def)

lemma map_of_dict_set: "map_of (dict_set k v d) = (map_of d)(k \<mapsto> v)"
proof (induction d)
  case Nil
  show ?case by simp
next
  case (Cons p d)
  obtain k' v' where p: "p = (k', v')" by (cases p)
  show ?case unfolding p using Cons.IH
    by (cases "k' = k") (auto simp: fun_eq_iff)
qed

lemma map_fst_dict_set:
  "map fst (dict_set k v d) = (if k \<in> fst ` set d then map fst d else map fst d @ [k])"
proof (induction d)
  case Nil
  show ?case by simp
next
  case (Cons p d)
  obtain k' v' where p: "p = (k', v')" by (cases p)
  show ?case unfolding p using Cons.IH
    by (cases "k' = k") simp_all
qed

lemma distinct_dict_set:
  "distinct (map fst d) \<Longrightarrow> distinct (map fst (dict_set k v d))"
  by (simp add: map_fst_dict_set)

lemma entries_under_append:
  "entries_under k (es @ es') = entries_under k es @ entries_under k es'"
  by (simp add: entries_under_def)

lemma entries_under_entry:
  "entries_under k [func_entry_of file_info func] =
     (if lower (fn_name func) = k then [func_entry_of file_info func] else [])"
  by (simp add: entries_under_def func_entry_of_def)

lemma fn_inv_step:
  assumes "fn_inv fns es"
  shows "fn_inv (index_function file_info fns func)
           (es @ (if lower (fn_name func) \<noteq> [] then [func_entry_of file_info func] else []))"
proof (cases "lower (fn_name func) = []")
  case True
  with assms show ?thesis by (simp add: index_function_def)
next
  case False
  let ?k = "lower (fn_name func)"
  let ?e = "func_entry_of file_info func"
  have cur: "(case map_of fns ?k of None \<Rightarrow> [] | Some l \<Rightarrow> l) = entries_under ?k es"
    using assms by (simp add: fn_inv_def)
  have upd: "index_function file_info fns func = dict_set ?k (entries_under ?k es @ [?e]) fns"
    using False cur by (simp add: index_function_def dict_append_def func_entry_of_def Let_def)
  have "map_of (dict_set ?k (entries_under ?k es @ [?e]) fns) k =
      (if entries_under k (es @ [?e]) = [] then None else Some (entries_under k (es @ [?e])))"
    for k
  proof (cases "k = ?k")
    case True
    then show ?thesis
      by (simp add: map_of_dict_set entries_under_append entries_under_entry)
  next
    case False
    with assms show ?thesis
      by (simp add: map_of_dict_set entries_under_append entries_under_entry fn_inv_def)
  qed
  with False show ?thesis unfolding upd by (simp add: fn_inv_def)
qed

lemma fn_inv_functions:
  "fn_inv fns es \<Longrightarrow>
   fn_inv (foldl (index_function file_info) fns fs)
     (es @ map (func_entry_of file_info) (filter (\<lambda>func. lower (fn_name func) \<noteq> []) fs))"
proof (induction fs arbitrary: fns es)
  case Nil
  then show ?case by simp
next
  case (Cons f fs)
  from Cons.IH [OF fn_inv_step [OF Cons.prems, of file_info f]]
  show ?case by (cases "lower (fn_name f) = []") simp_all
qed

lemma si_functions_index_file:
  "si_functions (index_file idx file_info) =
     foldl (index_function file_info) (si_functions idx) (fi_functions file_info)"
  by (simp add: index_file_def)

lemma fn_inv_files:
  "fn_inv (si_functions idx) es \<Longrightarrow>
   fn_inv (si_functions (foldl index_file idx fis)) (es @ concat (map func_entries fis))"
proof (induction fis arbitrary: idx es)
  case Nil
  then show ?case by simp
next
  case (Cons file_info fis)
  from Cons.prems have "fn_inv (si_functions (index_file idx file_info))
      (es @ func_entries file_info)"
    unfolding si_functions_index_file func_entries_def by (rule fn_inv_functions)
  from Cons.IH [OF this] show ?case by simp
qed

lemma si_functions_components:
  "si_functions (foldl index_component idx cs) = si_functions idx"
  by (induction cs arbitrary: idx) (simp_all add: index_component_def)

lemma build_fn_inv:
  "fn_inv (si_functions (build_search_index cache))
     (concat (map func_entries (cache_files cache)))"
proof -
  have "fn_inv (si_functions empty_index) []"
    by (simp add: fn_inv_def empty_index_def entries_under_def)
  from fn_inv_files [OF this, of "cache_files cache"] show ?thesis
    by (simp add: build_search_index_def Let_def si_functions_components)
qed

lemma distinct_index_function:
  "distinct (map fst fns) \<Longrightarrow> distinct (map fst (index_function file_info fns func))"
  by (simp add: index_function_def dict_append_def distinct_dict_set Let_def)

lemma distinct_functions:
  "distinct (map fst fns) \<Longrightarrow> distinct (map fst (foldl (index_function file_info) fns fs))"
  by (induction fs arbitrary: fns) (simp_all add: distinct_index_function)

lemma distinct_files:
  "distinct (map fst (si_functions idx)) \<Longrightarrow>
   distinct (map fst (si_functions (foldl index_file idx fis)))"
  by (induction fis arbitrary: idx) (simp_all add: si_functions_index_file distinct_functions)

lemma build_distinct: "distinct (map fst (si_functions (build_search_index cache)))"
proof -
  have "distinct (map fst (si_functions empty_index))" by (simp add: empty_index_def)
  from distinct_files [OF this, of "cache_files cache"] show ?thesis
    by (simp add: build_search_index_def Let_def si_functions_components)
qed

lemma entries_under_member:
  "e \<in> set (entries_under k (concat (map func_entries fis))) \<longleftrightarrow>
     (\<exists>file_info \<in> set fis. \<exists>func \<in> set (fi_functions file_info).
        e = func_entry_of file_info func \<and> lower (fn_name func) = k \<and> k \<noteq> [])"
  by (auto simp: entries_under_def func_entries_def func_entry_of_def)

lemma example_agent_cache:
  "search_index example_agent = build_search_index (context_cache example_agent)"
  "cache_files (context_cache example_agent) = [example_readme_info, example_scored_main]"
  by (simp_all add: example_agent_def load_repository_context_def Let_def cache_files_def
        example_loaded_analysis_def)

lemma lower_example_names:
  "lower ''Demo'' = ''demo''" "lower ''run'' = ''run''" "lower ''stop'' = ''stop''"
  "lower '''' = ''''"
  by code_simp+

text \<open>
  C5. The README of the example ends with the heading \<open>#\<close>, which the markdown strategy
  records as a function with the empty name. The file is in the loaded analysis, and
  the lowercased name is no key of the function index: the index skips empty names.
\<close>

theorem empty_name_counterexample:
  "example_readme_info \<in> set (cache_files (context_cache example_agent)) \<and>
   \<lparr>fn_name = '''', fn_line = 2, fn_args = [], fn_docstring = None, fn_decorators = [],
     fn_type = Some ''header_h1''\<rparr> \<in> set (fi_functions example_readme_info) \<and>
   map_of (si_functions (search_index example_agent)) (lower '''') = None"
proof -
  have "map_of (si_functions (build_search_index (context_cache example_agent))) [] = None"
    using build_fn_inv [of "context_cache example_agent"]
    by (simp add: fn_inv_def entries_under_def func_entries_def filter_concat
          filter_empty_conv func_entry_of_def)
  then show ?thesis
    by (simp add: example_agent_cache lower_example_names example_readme_info_def)
qed

text \<open>
  C5, amended. After the search index is built, the function mapping has distinct keys,
  none of them empty. Every function of a file of the analysis whose name is not empty
  has its lowercased name as a key, and its entry, with the path of its file, is stored
  under that key. Every entry stored under a key belongs to a function of a file of the
  analysis whose lowercased name is the key, and its \<open>file\<close> field is the path of that
  file. The entries under a key are exactly the functions with that lowercased name, in
  the order of the files and of their functions.
\<close>

theorem function_index_round_trip:
  "distinct (map fst (si_functions (build_search_index cache))) \<and>
   map_of (si_functions (build_search_index cache)) [] = None \<and>
   (\<forall>file_info \<in> set (cache_files cache). \<forall>func \<in> set (fi_functions file_info).
      fn_name func \<noteq> [] \<longrightarrow>
      (\<exists>es. map_of (si_functions (build_search_index cache)) (lower (fn_name func)) = Some es \<and>
         \<lparr>fe_file = fi_path file_info, fe_function = func, fe_file_info = file_info\<rparr>
           \<in> set es)) \<and>
   (\<forall>k es. map_of (si_functions (build_search_index cache)) k = Some es \<longrightarrow>
      k \<noteq> [] \<and> es \<noteq> [] \<and>
      (\<forall>e \<in> set es.
         fe_file e = fi_path (fe_file_info e) \<and>
         fe_file_info e \<in> set (cache_files cache) \<and>
         fe_function e \<in> set (fi_functions (fe_file_info e)) \<and>
         lower (fn_name (fe_function e)) = k)) \<and>
   (\<forall>k. map_of (si_functions (build_search_index cache)) k =
      (if entries_under k (concat (map func_entries (cache_files cache))) = [] then None
       else Some (entries_under k (concat (map func_entries (cache_files cache))))))"
proof -
  let ?fns = "si_functions (build_search_index cache)"
  let ?all = "concat (map func_entries (cache_files cache))"
  have inv: "map_of ?fns k =
      (if entries_under k ?all = [] then None else Some (entries_under k ?all))" for k
    using build_fn_inv [of cache] by (simp add: fn_inv_def)
  have none: "entries_under [] ?all = []"
  proof (rule ccontr)
    assume "entries_under [] ?all \<noteq> []"
    then obtain e where "e \<in> set (entries_under [] ?all)" by (cases "entries_under [] ?all") auto
    then show False unfolding entries_under_member by simp
  qed
  have empty: "map_of ?fns [] = None" unfolding inv using none by simp
  have forth: "\<forall>file_info \<in> set (cache_files cache). \<forall>func \<in> set (fi_functions file_info).
      fn_name func \<noteq> [] \<longrightarrow>
      (\<exists>es. map_of ?fns (lower (fn_name func)) = Some es \<and>
         \<lparr>fe_file = fi_path file_info, fe_function = func, fe_file_info = file_info\<rparr>
           \<in> set es)"
  proof (intro ballI impI)
    fix file_info func
    assume "file_info \<in> set (cache_files cache)" and "func \<in> set (fi_functions file_info)"
      and "fn_name func \<noteq> []"
    then have "func_entry_of file_info func
        \<in> set (entries_under (lower (fn_name func)) ?all)"
      unfolding entries_under_member by (auto simp: lower_Nil_iff)
    then show "\<exists>es. map_of ?fns (lower (fn_name func)) = Some es \<and>
         \<lparr>fe_file = fi_path file_info, fe_function = func, fe_file_info = file_info\<rparr>
           \<in> set es"
      unfolding inv by (auto simp: func_entry_of_def)
  qed
  have conv: "\<forall>k es. map_of ?fns k = Some es \<longrightarrow>
      k \<noteq> [] \<and> es \<noteq> [] \<and>
      (\<forall>e \<in> set es.
         fe_file e = fi_path (fe_file_info e) \<and>
         fe_file_info e \<in> set (cache_files cache) \<and>
         fe_function e \<in> set (fi_functions (fe_file_info e)) \<and>
         lower (fn_name (fe_function e)) = k)"
  proof (intro allI impI)
    fix k es
    assume "map_of ?fns k = Some es"
    then have es: "es = entries_under k ?all" and ne: "es \<noteq> []"
      unfolding inv by (auto split: if_splits)
    from ne es none have k: "k \<noteq> []" by auto
    have "\<forall>e \<in> set es.
         fe_file e = fi_path (fe_file_info e) \<and>
         fe_file_info e \<in> set (cache_files cache) \<and>
         fe_function e \<in> set (fi_functions (fe_file_info e)) \<and>
         lower (fn_name (fe_function e)) = k"
      by (auto simp: es entries_under_member func_entry_of_def)
    with k ne show "k \<noteq> [] \<and> es \<noteq> [] \<and>
      (\<forall>e \<in> set es.
         fe_file e = fi_path (fe_file_info e) \<and>
         fe_file_info e \<in> set (cache_files cache) \<and>
         fe_function e \<in> set (fi_functions (fe_file_info e)) \<and>
         lower (fn_name (fe_function e)) = k)"
      by blast
  qed
  from build_distinct [of cache] empty forth conv inv show ?thesis by blast
qed

theorem function_index_round_trip_witness:
  "example_readme_info \<in> set (cache_files (context_cache example_agent)) \<and>
   \<lparr>fn_name = ''Demo'', fn_line = 1, fn_args = [], fn_docstring = None, fn_decorators = [],
     fn_type = Some ''header_h1''\<rparr> \<in> set (fi_functions example_readme_info) \<and>
   map_of (si_functions (search_index example_agent)) ''demo'' =
     Some [\<lparr>fe_file = ''README.md'',
            fe_function = \<lparr>fn_name = ''Demo'', fn_line = 1, fn_args = [], fn_docstring = None,
              fn_decorators = [], fn_type = Some ''header_h1''\<rparr>,
            fe_file_info = example_readme_info\<rparr>] \<and>
   map_of (si_functions (search_index example_agent)) ''run'' =
     Some [\<lparr>fe_file = ''main.py'',
            fe_function = \<lparr>fn_name = ''run'', fn_line = 1, fn_args = [], fn_docstring = None,
              fn_decorators = [], fn_type = None\<rparr>,
            fe_file_info = example_scored_main\<rparr>]"
proof -
  have fs: "fi_functions example_readme_info =
      [\<lparr>fn_name = ''Demo'', fn_line = 1, fn_args = [], fn_docstring = None,
         fn_decorators = [], fn_type = Some ''header_h1''\<rparr>,
       \<lparr>fn_name = '''', fn_line = 2, fn_args = [], fn_docstring = None,
         fn_decorators = [], fn_type = Some ''header_h1''\<rparr>]"
    "fi_functions example_scored_main =
      [\<lparr>fn_name = ''run'', fn_line = 1, fn_args = [], fn_docstring = None,
         fn_decorators = [], fn_type = None\<rparr>,
       \<lparr>fn_name = ''stop'', fn_line = 9, fn_args = [], fn_docstring = None,
         fn_decorators = [], fn_type = None\<rparr>]"
    "fi_path example_readme_info = ''README.md''" "fi_path example_scored_main = ''main.py''"
    by (simp_all add: example_readme_info_def example_scored_main_def)
  from function_index_round_trip [of "context_cache example_agent"]
  have "\<forall>k. map_of (si_functions (search_index example_agent)) k =
      (if entries_under k (concat (map func_entries [example_readme_info, example_scored_main])) = []
       then None
       else Some (entries_under k
         (concat (map func_entries [example_readme_info, example_scored_main]))))"
    unfolding example_agent_cache by blast
  then show ?thesis
    by (simp add: example_agent_cache fs entries_under_def func_entries_def func_entry_of_def
          lower_example_names)
qed

section \<open>Context rendering\<close>

lemma total_files_step: "total_files (analyze_step env repo a e) = total_files a"
  by (simp add: analyze_step_def Let_def split: option.splits)

lemma total_files_foldl: "total_files (foldl (analyze_step env repo) a es) = total_files a"
  by (induction es arbitrary: a) (simp_all add: total_files_step)

lemma analyze_repository_total:
  assumes "analyze_repository env repo tree = Some a"
  shows "total_files a = length (walk repo tree)"
proof -
  let ?start = "(initial_analysis repo)\<lparr>total_files := length (walk repo tree)\<rparr>"
  from assms obtain s where
    a: "a = (foldl (analyze_step env repo) ?start (walk repo tree))\<lparr>structure := Some s\<rparr>"
    by (auto simp: analyze_repository_def Let_def split: option.splits)
  show ?thesis unfolding a by (simp add: total_files_foldl)
qed

lemma length_map_filter_le: "length (List.map_filter f xs) \<le> length xs"
  by (simp add: List.map_filter_def)

lemma length_map_filter_eq:
  "length (List.map_filter f xs) = length xs \<longleftrightarrow> (\<forall>x \<in> set xs. f x \<noteq> None)"
proof (induction xs)
  case Nil
  show ?case by (simp add: List.map_filter_simps)
next
  case (Cons x xs)
  show ?case
  proof (cases "f x")
    case None
    have "length (List.map_filter f xs) \<le> length xs" by (rule length_map_filter_le)
    with None show ?thesis by (simp add: List.map_filter_simps)
  next
    case (Some y)
    with Cons.IH show ?thesis by (simp add: List.map_filter_simps)
  qed
qed

lemma example_file_question:
  "question_type (lower ''Which files exist?'') = ''file''"
  "\<not> any_in [''documentation'', ''docs'', ''doc''] (lower ''Which files exist?'')"
  "\<not> str_in ''readme'' (lower ''Which files exist?'')"
  by code_simp+

lemma example_str_nat:
  "str_nat (Suc 0) = ''1''" "str_nat 2 = ''2''" "str_nat 3 = ''3''" "str_nat 4 = ''4''"
  by code_simp+

lemma example_tree_agent_analysis:
  "cc_analysis (context_cache example_tree_agent) = Some example_analysis"
  by (simp add: example_tree_agent_def load_repository_context_def Let_def)

lemma example_file_structure:
  "file_structure_part (context_cache example_tree_agent)
     (extract_relevant_context example_tree_agent ''Which files exist?'') =
     [''Complete File Structure:'',
      ''- main.py (python, 3 bytes, 2 lines)'',
      ''- Makefile (None, 4 bytes, 1 lines)'',
      CHR 0x0A # ''Total files: 3, Analyzed files: 2'',
      '''']"
  by (simp add: file_structure_part_def qc_type_extract example_file_question
        example_tree_agent_analysis example_analysis_def file_structure_line_def
        example_main_info_def example_makefile_info_def str_opt_def example_str_nat
        newline_def)

text \<open>
  C1. The walk of the example repository keeps three files; \<open>big.py\<close> is larger than
  1 MiB and is not analyzed. For a question of intent \<open>file\<close> the section lists the two
  analyzed files, while \<open>total_files\<close> is three.
\<close>

theorem skipped_file_counterexample:
  "analyze_repository example_env ''repo'' example_tree = Some example_analysis \<and>
   cc_analysis (context_cache example_tree_agent) = Some example_analysis \<and>
   qc_type (extract_relevant_context example_tree_agent ''Which files exist?'') = ''file'' \<and>
   total_files example_analysis = 3 \<and>
   length (walk ''repo'' example_tree) = 3 \<and>
   file_structure_part (context_cache example_tree_agent)
     (extract_relevant_context example_tree_agent ''Which files exist?'') =
     [''Complete File Structure:'',
      ''- main.py (python, 3 bytes, 2 lines)'',
      ''- Makefile (None, 4 bytes, 1 lines)'',
      CHR 0x0A # ''Total files: 3, Analyzed files: 2'',
      '''']"
  by (simp add: example_analyze_repository example_tree_agent_analysis qc_type_extract
        example_file_question example_file_structure example_walk)
    (simp add: example_analysis_def)

text \<open>
  C1, amended. For an agent loaded with the analysis of a successful run and a question
  whose intent is \<open>structure\<close> or \<open>file\<close>, the rendered context holds, after the
  overview, the section of the file structure: when at least one file was analyzed, the
  title, one line for each analyzed file, in order, and the line of the two counts; and
  nothing otherwise. The analyzed files are the files of the walk that \<open>analyze_file\<close>
  accepts. Their number is \<open>analyzed_files\<close>, which is at most \<open>total_files\<close>, the
  number of files of the walk, and equal to it exactly when \<open>analyze_file\<close> accepts
  every file of the walk.
\<close>

theorem file_structure_lists_analyzed_files:
  assumes "analyze_repository penv repo tree = Some a"
    and "cc_analysis (context_cache agent) = Some a"
    and "qc_type (extract_relevant_context agent q) \<in> {''structure'', ''file''}"
  shows "file_structure_part (context_cache agent) (extract_relevant_context agent q) =
           (if files a = [] then []
            else [''Complete File Structure:''] @ map file_structure_line (files a) @
                 [newline @ ''Total files: '' @ str_nat (total_files a) @
                    '', Analyzed files: '' @ str_nat (analyzed_files a), '''']) \<and>
         (\<exists>rest. context_parts qenv agent (extract_relevant_context agent q) q =
            overview_part (context_cache agent) @
            file_structure_part (context_cache agent) (extract_relevant_context agent q) @ rest) \<and>
         files a =
           List.map_filter (\<lambda>e. analyze_file penv (fst e) (snd e) repo) (walk repo tree) \<and>
         length (map file_structure_line (files a)) = analyzed_files a \<and>
         total_files a = length (walk repo tree) \<and>
         analyzed_files a \<le> total_files a \<and>
         (analyzed_files a = total_files a \<longleftrightarrow>
            (\<forall>e \<in> set (walk repo tree). analyze_file penv (fst e) (snd e) repo \<noteq> None))"
proof -
  have part: "file_structure_part (context_cache agent) (extract_relevant_context agent q) =
           (if files a = [] then []
            else [''Complete File Structure:''] @ map file_structure_line (files a) @
                 [newline @ ''Total files: '' @ str_nat (total_files a) @
                    '', Analyzed files: '' @ str_nat (analyzed_files a), ''''])"
    using assms(2,3) by (auto simp: file_structure_part_def Let_def)
  have parts: "\<exists>rest. context_parts qenv agent (extract_relevant_context agent q) q =
            overview_part (context_cache agent) @
            file_structure_part (context_cache agent) (extract_relevant_context agent q) @ rest"
    by (simp add: context_parts_def Let_def)
  from assms(1) have fs: "files a =
      List.map_filter (\<lambda>e. analyze_file penv (fst e) (snd e) repo) (walk repo tree)"
    by (rule analyze_repository_files)
  from assms(1) have "stats_inv a" by (rule analyze_repository_inv)
  then have n: "analyzed_files a = length (files a)" by (simp add: stats_inv_def)
  from assms(1) have t: "total_files a = length (walk repo tree)"
    by (rule analyze_repository_total)
  have le: "analyzed_files a \<le> total_files a"
    unfolding n t fs by (rule length_map_filter_le)
  have eq: "analyzed_files a = total_files a \<longleftrightarrow>
      (\<forall>e \<in> set (walk repo tree). analyze_file penv (fst e) (snd e) repo \<noteq> None)"
    unfolding n t fs by (rule length_map_filter_eq)
  from part parts fs n t le eq show ?thesis by simp
qed

theorem file_structure_lists_analyzed_files_witness:
  "analyze_repository example_env ''repo'' example_tree = Some example_analysis \<and>
   cc_analysis (context_cache example_tree_agent) = Some example_analysis \<and>
   qc_type (extract_relevant_context example_tree_agent ''Which files exist?'') = ''file'' \<and>
   file_structure_part (context_cache example_tree_agent)
     (extract_relevant_context example_tree_agent ''Which files exist?'') =
     [''Complete File Structure:''] @
     map file_structure_line [example_main_info, example_makefile_info] @
     [CHR 0x0A # ''Total files: 3, Analyzed files: 2'', ''''] \<and>
   analyzed_files example_analysis = 2 \<and> total_files example_analysis = 3 \<and>
   analyze_file example_env ''repo/big.py'' \<lparr>st_size = 2097152, text_of = Some ''x''\<rparr> ''repo'' =
     None"
proof -
  have ty: "qc_type (extract_relevant_context example_tree_agent ''Which files exist?'') = ''file''"
    by (simp add: qc_type_extract example_file_question)
  then have "qc_type (extract_relevant_context example_tree_agent ''Which files exist?'')
      \<in> {''structure'', ''file''}"
    by simp
  from file_structure_lists_analyzed_files
    [OF example_analyze_repository example_tree_agent_analysis this,
     where qenv = echo_env, THEN conjunct1]
  have "file_structure_part (context_cache example_tree_agent)
     (extract_relevant_context example_tree_agent ''Which files exist?'') =
     [''Complete File Structure:''] @
     map file_structure_line [example_main_info, example_makefile_info] @
     [CHR 0x0A # ''Total files: 3, Analyzed files: 2'', '''']"
    by (simp add: example_analysis_def example_str_nat newline_def)
  moreover have "analyze_file example_env ''repo/big.py''
      \<lparr>st_size = 2097152, text_of = Some ''x''\<rparr> ''repo'' = None"
    by (simp add: analyze_file_def)
  ultimately show ?thesis
    using ty by (simp add: example_analyze_repository example_tree_agent_analysis)
      (simp add: example_analysis_def)
qed

end
